theory Spec2Isabelle
  imports Complex_Main "HOL-Library.Sublist"
begin

section \<open>Hapto: cue model, editor session, timeline gestures and waveform synthesis\<close>

text \<open>
  A shallow embedding of the TypeScript sources of the Hapto haptic-cue editor:
  \<^item> \<^verbatim>\<open>lib/types.ts\<close>: the cue model;
  \<^item> \<^verbatim>\<open>lib/waveform-generator.ts\<close>: the waveform synthesis;
  \<^item> \<^verbatim>\<open>components/hapto-editor.tsx\<close>: the editor session (add, update, delete);
  \<^item> \<^verbatim>\<open>components/timeline.tsx\<close>: the view mapping and the cue drag gesture;
  \<^item> \<^verbatim>\<open>components/adjustments-panel.tsx\<close>: the duration input.

  JavaScript numbers are modelled as \<^typ>\<open>real\<close>: the theorems are about the arithmetic
  the code writes down, not about IEEE rounding, \<^verbatim>\<open>NaN\<close> or infinities.
\<close>

subsection \<open>Cue model (\<^verbatim>\<open>lib/types.ts\<close>)\<close>

datatype CueType =
    rumble_low
  | rumble_high
  | kick_soft
  | kick_hard
  | heartbeat_slow
  | heartbeat_fast
  | pulse
  | explosion
  | ramp_up
  | ramp_down

text \<open>
  \<^verbatim>\<open>StaticCueProperties\<close> and \<^verbatim>\<open>RampCueProperties\<close>: the two payload shapes. A selector
  applied to the other shape is unspecified, as reading an absent field is in the source.
\<close>

datatype CueProperties =
    StaticCueProperties (intensity: real) (sharpness: real)
  | RampCueProperties (intensity_start: real) (intensity_end: real)
      (sharpness_start: real) (sharpness_end: real)

text \<open>
  \<^verbatim>\<open>HapticCue = StaticHapticCue | RampHapticCue\<close>: the fields of \<^verbatim>\<open>BaseCue\<close> and the payload.
  The source's fields \<^verbatim>\<open>id\<close> and \<^verbatim>\<open>type\<close> are \<open>cue_id\<close> and \<open>cue_type\<close> here.
\<close>

record HapticCue =
  cue_id :: string
  cue_type :: CueType
  startTime :: real
  duration :: real
  track :: int
  props :: CueProperties

definition isRampCue :: "HapticCue \<Rightarrow> bool" where
  "isRampCue cue \<longleftrightarrow> cue_type cue = ramp_up \<or> cue_type cue = ramp_down"

definition isStaticCue :: "HapticCue \<Rightarrow> bool" where
  "isStaticCue cue \<longleftrightarrow> \<not> isRampCue cue"

record MarqueeSelection =
  isActive :: bool
  marquee_startX :: real
  marquee_startY :: real
  currentX :: real
  currentY :: real

record SelectionState =
  selectedCueIds :: "string set"
  marqueeSelection :: "MarqueeSelection option"

subsection \<open>Editor session (\<^verbatim>\<open>components/hapto-editor.tsx\<close>)\<close>

text \<open>
  The React state of \<^verbatim>\<open>HaptoEditor\<close> that the cue handlers read and write: \<^verbatim>\<open>cues\<close>,
  \<^verbatim>\<open>selectedCue\<close> (the primary selection, \<^verbatim>\<open>null\<close> is \<open>None\<close>) and \<^verbatim>\<open>selectionState\<close>.
  Each handler is a function from the state to the state after its \<^verbatim>\<open>set...\<close> calls.
\<close>

record Editor =
  cues :: "HapticCue list"
  selectedCue :: "HapticCue option"
  selectionState :: SelectionState

definition handleDeleteSelectedCues :: "Editor \<Rightarrow> Editor" where
  "handleDeleteSelectedCues ed =
     (let idsToDelete = selectedCueIds (selectionState ed)
      in if idsToDelete = {} then ed
         else ed\<lparr>cues := filter (\<lambda>cue. cue_id cue \<notin> idsToDelete) (cues ed),
                 selectedCue := None,
                 selectionState := (selectionState ed)\<lparr>selectedCueIds := {}\<rparr>\<rparr>)"

text \<open>
  \<^verbatim>\<open>Partial<HapticCue>\<close>: a patch names the fields it sets; \<open>None\<close> is an absent key.
\<close>

record CueUpdates =
  upd_id :: "string option"
  upd_type :: "CueType option"
  upd_startTime :: "real option"
  upd_duration :: "real option"
  upd_track :: "int option"
  upd_intensity :: "real option"
  upd_sharpness :: "real option"
  upd_intensity_start :: "real option"
  upd_intensity_end :: "real option"
  upd_sharpness_start :: "real option"
  upd_sharpness_end :: "real option"

definition no_updates :: CueUpdates where
  "no_updates =
     \<lparr>upd_id = None, upd_type = None, upd_startTime = None, upd_duration = None,
      upd_track = None, upd_intensity = None, upd_sharpness = None,
      upd_intensity_start = None, upd_intensity_end = None,
      upd_sharpness_start = None, upd_sharpness_end = None\<rparr>"

definition override :: "'a \<Rightarrow> 'a option \<Rightarrow> 'a" where
  "override old new = (case new of None \<Rightarrow> old | Some v \<Rightarrow> v)"

text \<open>
  The payload part of \<^verbatim>\<open>{ ...cue, ...updates }\<close>. A key of the other payload shape adds a
  field that no typed read ever sees, so the modelled payload keeps its fields.
\<close>

definition spread_props :: "CueProperties \<Rightarrow> CueUpdates \<Rightarrow> CueProperties" where
  "spread_props p updates =
     (case p of
        StaticCueProperties i s \<Rightarrow>
          StaticCueProperties (override i (upd_intensity updates))
            (override s (upd_sharpness updates))
      | RampCueProperties i0 i1 s0 s1 \<Rightarrow>
          RampCueProperties (override i0 (upd_intensity_start updates))
            (override i1 (upd_intensity_end updates))
            (override s0 (upd_sharpness_start updates))
            (override s1 (upd_sharpness_end updates)))"

text \<open>\<^verbatim>\<open>{ ...cue, ...updates } as HapticCue\<close>\<close>

definition spread :: "HapticCue \<Rightarrow> CueUpdates \<Rightarrow> HapticCue" where
  "spread cue updates =
     \<lparr>cue_id = override (cue_id cue) (upd_id updates),
      cue_type = override (cue_type cue) (upd_type updates),
      startTime = override (startTime cue) (upd_startTime updates),
      duration = override (duration cue) (upd_duration updates),
      track = override (track cue) (upd_track updates),
      props = spread_props (props cue) updates\<rparr>"

definition handleUpdateCue :: "Editor \<Rightarrow> string \<Rightarrow> CueUpdates \<Rightarrow> Editor" where
  "handleUpdateCue ed cueId updates =
     ed\<lparr>cues := map (\<lambda>cue. if cue_id cue = cueId then spread cue updates else cue) (cues ed),
         selectedCue :=
           (case selectedCue ed of
              None \<Rightarrow> None
            | Some prev \<Rightarrow> if cue_id prev = cueId then Some (spread prev updates) else Some prev)\<rparr>"

text \<open>
  \<^verbatim>\<open>findAvailableTrack\<close> inside \<^verbatim>\<open>handleAddCue\<close>: \<open>hasConflict\<close> is the body of
  \<^verbatim>\<open>cues.some(...)\<close>, the \<^verbatim>\<open>for\<close> loop over \<open>track\<close> is the recursion.
\<close>

definition hasConflict :: "HapticCue list \<Rightarrow> real \<Rightarrow> int \<Rightarrow> bool" where
  "hasConflict cs time trk \<longleftrightarrow>
     list_ex (\<lambda>cue. track cue = trk \<and> time \<ge> startTime cue
                     \<and> time \<le> startTime cue + duration cue) cs"

function findAvailableTrackFrom :: "HapticCue list \<Rightarrow> real \<Rightarrow> int \<Rightarrow> int \<Rightarrow> int" where
  "findAvailableTrackFrom cs time preferredTrack trk =
     (if trk < 8 then
        (if \<not> hasConflict cs time trk then trk
         else findAvailableTrackFrom cs time preferredTrack (trk + 1))
      else preferredTrack)"
  by pat_completeness auto
termination
  by (relation "measure (\<lambda>(cs, time, preferredTrack, trk). nat (8 - trk))") auto

definition findAvailableTrack :: "HapticCue list \<Rightarrow> real \<Rightarrow> int \<Rightarrow> int" where
  "findAvailableTrack cs time preferredTrack =
     findAvailableTrackFrom cs time preferredTrack preferredTrack"

text \<open>
  \<^verbatim>\<open>handleAddCue(type, startTime, targetTrack?)\<close>. \<open>now\<close> is \<^verbatim>\<open>Date.now().toString()\<close>, the
  new cue's id. \<open>targetTrack = None\<close> is the omitted argument; \<^verbatim>\<open>findAvailableTrack\<close> is then
  called with its default \<^verbatim>\<open>preferredTrack = 0\<close>.
\<close>

definition handleAddCue :: "string \<Rightarrow> Editor \<Rightarrow> CueType \<Rightarrow> real \<Rightarrow> int option \<Rightarrow> Editor" where
  "handleAddCue now ed type start targetTrack =
     (let trk = (case targetTrack of
                   Some t \<Rightarrow> t
                 | None \<Rightarrow> findAvailableTrack (cues ed) start 0)
      in if type = ramp_up \<or> type = ramp_down then
           (let rampDefaults =
                  (if type = ramp_up then RampCueProperties 0.1 1.0 0.1 0.7
                   else RampCueProperties 1.0 0.1 0.7 0.1);
                newRampCue =
                  \<lparr>cue_id = now, cue_type = type, startTime = start, duration = 2.0,
                   track = trk, props = rampDefaults\<rparr>
            in ed\<lparr>cues := cues ed @ [newRampCue]\<rparr>)
         else
           (let newStaticCue =
                  \<lparr>cue_id = now, cue_type = type, startTime = start, duration = 0.5,
                   track = trk, props = StaticCueProperties 0.8 0.5\<rparr>
            in ed\<lparr>cues := cues ed @ [newStaticCue]\<rparr>))"

subsection \<open>Duration input (\<^verbatim>\<open>components/adjustments-panel.tsx\<close>)\<close>

text \<open>
  \<^verbatim>\<open>handleDurationChange\<close>: \<open>parsed\<close> is the result of \<^verbatim>\<open>parseFloat(e.target.value)\<close>, with
  \<open>None\<close> for \<^verbatim>\<open>NaN\<close>. The result is the call of \<^verbatim>\<open>onUpdate\<close> it makes, if any.
\<close>

definition handleDurationChange :: "HapticCue \<Rightarrow> real option \<Rightarrow> (string \<times> CueUpdates) option" where
  "handleDurationChange cue parsed =
     (case parsed of
        None \<Rightarrow> None
      | Some d \<Rightarrow>
          if d > 0 then Some (cue_id cue, no_updates\<lparr>upd_duration := Some d\<rparr>) else None)"

text \<open>
  The slider handlers; \<open>v\<close> is \<^verbatim>\<open>value[0]\<close>. \<^verbatim>\<open>isRamp\<close> is \<^verbatim>\<open>isRampCue(cue)\<close>.
\<close>

definition handleIntensityChange :: "HapticCue \<Rightarrow> real \<Rightarrow> (string \<times> CueUpdates) option" where
  "handleIntensityChange cue v =
     (if \<not> isRampCue cue then Some (cue_id cue, no_updates\<lparr>upd_intensity := Some v\<rparr>) else None)"

definition handleSharpnessChange :: "HapticCue \<Rightarrow> real \<Rightarrow> (string \<times> CueUpdates) option" where
  "handleSharpnessChange cue v =
     (if \<not> isRampCue cue then Some (cue_id cue, no_updates\<lparr>upd_sharpness := Some v\<rparr>) else None)"

definition handleIntensityStartChange :: "HapticCue \<Rightarrow> real \<Rightarrow> (string \<times> CueUpdates) option" where
  "handleIntensityStartChange cue v =
     (if isRampCue cue then Some (cue_id cue, no_updates\<lparr>upd_intensity_start := Some v\<rparr>)
      else None)"

definition handleIntensityEndChange :: "HapticCue \<Rightarrow> real \<Rightarrow> (string \<times> CueUpdates) option" where
  "handleIntensityEndChange cue v =
     (if isRampCue cue then Some (cue_id cue, no_updates\<lparr>upd_intensity_end := Some v\<rparr>)
      else None)"

definition handleSharpnessStartChange :: "HapticCue \<Rightarrow> real \<Rightarrow> (string \<times> CueUpdates) option" where
  "handleSharpnessStartChange cue v =
     (if isRampCue cue then Some (cue_id cue, no_updates\<lparr>upd_sharpness_start := Some v\<rparr>)
      else None)"

definition handleSharpnessEndChange :: "HapticCue \<Rightarrow> real \<Rightarrow> (string \<times> CueUpdates) option" where
  "handleSharpnessEndChange cue v =
     (if isRampCue cue then Some (cue_id cue, no_updates\<lparr>upd_sharpness_end := Some v\<rparr>)
      else None)"

text \<open>
  The six reset buttons, \<^verbatim>\<open>onClick={() => onUpdate(cue.id, { intensity_start: 0.1 })}\<close> and
  so on. The four ramp buttons are rendered in the \<^verbatim>\<open>isRamp\<close> branch of the panel and the two
  static ones in the other; a button that is not rendered makes no call.
\<close>

datatype ParamField =
    Intensity | Sharpness | IntensityStart | IntensityEnd | SharpnessStart | SharpnessEnd

definition resetButton :: "HapticCue \<Rightarrow> ParamField \<Rightarrow> (string \<times> CueUpdates) option" where
  "resetButton cue field =
     (case field of
        IntensityStart \<Rightarrow>
          if isRampCue cue then Some (cue_id cue, no_updates\<lparr>upd_intensity_start := Some 0.1\<rparr>)
          else None
      | IntensityEnd \<Rightarrow>
          if isRampCue cue then Some (cue_id cue, no_updates\<lparr>upd_intensity_end := Some 1.0\<rparr>)
          else None
      | SharpnessStart \<Rightarrow>
          if isRampCue cue then Some (cue_id cue, no_updates\<lparr>upd_sharpness_start := Some 0.1\<rparr>)
          else None
      | SharpnessEnd \<Rightarrow>
          if isRampCue cue then Some (cue_id cue, no_updates\<lparr>upd_sharpness_end := Some 0.7\<rparr>)
          else None
      | Intensity \<Rightarrow>
          if \<not> isRampCue cue then Some (cue_id cue, no_updates\<lparr>upd_intensity := Some 0.8\<rparr>)
          else None
      | Sharpness \<Rightarrow>
          if \<not> isRampCue cue then Some (cue_id cue, no_updates\<lparr>upd_sharpness := Some 0.5\<rparr>)
          else None)"

subsection \<open>Timeline view and cue drag (\<^verbatim>\<open>components/timeline.tsx\<close>)\<close>

text \<open>
  What the view mapping reads: the prop \<^verbatim>\<open>duration\<close> (the total duration, \<open>totalDuration\<close>
  here, since a cue has a \<open>duration\<close> too), the state \<^verbatim>\<open>zoomLevel\<close> and \<^verbatim>\<open>viewStartTime\<close>, and
  \<^verbatim>\<open>timelineRef.current.offsetWidth\<close> (\<open>None\<close> while the ref is \<^verbatim>\<open>null\<close>).
  \<^verbatim>\<open>zoomLevel\<close> starts at 1 and is only doubled or halved within [0.25, 16], so the division
  in \<open>visibleDuration\<close> never has a zero divisor. The division by \<^verbatim>\<open>offsetWidth\<close> in
  \<open>pixelToTime\<close> is the source's; at width 0 the source yields an infinity or \<^verbatim>\<open>NaN\<close>, which
  the model does not represent.
\<close>

record Timeline =
  totalDuration :: real
  zoomLevel :: real
  viewStartTime :: real
  offsetWidth :: "real option"

definition visibleDuration :: "Timeline \<Rightarrow> real" where
  "visibleDuration tln = totalDuration tln / zoomLevel tln"

definition timeToPixel :: "Timeline \<Rightarrow> real \<Rightarrow> real" where
  "timeToPixel tln time =
     (case offsetWidth tln of
        None \<Rightarrow> 0
      | Some w \<Rightarrow>
          if visibleDuration tln = 0 then 0
          else (let relativeTime = time - viewStartTime tln
                in (relativeTime / visibleDuration tln) * w))"

definition pixelToTime :: "Timeline \<Rightarrow> real \<Rightarrow> real" where
  "pixelToTime tln pixel =
     (case offsetWidth tln of
        None \<Rightarrow> 0
      | Some w \<Rightarrow>
          if visibleDuration tln = 0 then 0
          else (let relativeTime = (pixel / w) * visibleDuration tln
                in viewStartTime tln + relativeTime))"

definition handleZoomIn :: "Timeline \<Rightarrow> Timeline" where
  "handleZoomIn tln =
     (let newZoomLevel = min (zoomLevel tln * 2) 16;
          centerTime = viewStartTime tln + visibleDuration tln / 2;
          newVisibleDuration = totalDuration tln / newZoomLevel;
          newViewStartTime = max 0 (min (totalDuration tln - newVisibleDuration)
                                        (centerTime - newVisibleDuration / 2))
      in tln\<lparr>zoomLevel := newZoomLevel, viewStartTime := newViewStartTime\<rparr>)"

datatype DragType = move | resize_left | resize_right

text \<open>
  The \<^verbatim>\<open>dragState\<close> of the timeline. \<open>handleCueMouseDown\<close> is the drag state that the
  source's handler of that name sets (its call of \<^verbatim>\<open>onCueSelect\<close> is not part of this model).
\<close>

record DragState =
  drag_type :: DragType
  drag_cueId :: string
  drag_startX :: real
  drag_startTime :: real
  drag_startDuration :: real

definition handleCueMouseDown :: "real \<Rightarrow> HapticCue \<Rightarrow> DragType \<Rightarrow> DragState" where
  "handleCueMouseDown clientX cue type =
     \<lparr>drag_type = type, drag_cueId = cue_id cue, drag_startX = clientX,
      drag_startTime = startTime cue, drag_startDuration = duration cue\<rparr>"

text \<open>
  \<^verbatim>\<open>handleMouseMove\<close> of the cue drag effect, for a pointer at \<open>clientX\<close>. The result is the
  call \<^verbatim>\<open>onCueUpdate(dragState.cueId, updates)\<close> it makes, or \<open>None\<close> when it makes none
  (cue not found, or \<^verbatim>\<open>Object.keys(updates).length = 0\<close>).
\<close>

definition handleMouseMove ::
  "Timeline \<Rightarrow> DragState \<Rightarrow> HapticCue list \<Rightarrow> real \<Rightarrow> (string \<times> CueUpdates) option" where
  "handleMouseMove tln dragState cs clientX =
     (let deltaX = clientX - drag_startX dragState;
          deltaTime = pixelToTime tln deltaX
      in case find (\<lambda>c. cue_id c = drag_cueId dragState) cs of
           None \<Rightarrow> None
         | Some cue \<Rightarrow>
             (let updates =
                (case drag_type dragState of
                   move \<Rightarrow>
                     no_updates\<lparr>upd_startTime :=
                       Some (max 0 (min (totalDuration tln - drag_startDuration dragState)
                                        (drag_startTime dragState + deltaTime)))\<rparr>
                 | resize_left \<Rightarrow>
                     (let newStartTime = max 0 (drag_startTime dragState + deltaTime);
                          newDuration = drag_startDuration dragState
                                          - (newStartTime - drag_startTime dragState)
                      in if newDuration > 0.1
                         then no_updates\<lparr>upd_startTime := Some newStartTime,
                                           upd_duration := Some newDuration\<rparr>
                         else no_updates)
                 | resize_right \<Rightarrow>
                     (let newDurationRight = max 0.1 (drag_startDuration dragState + deltaTime)
                      in if drag_startTime dragState + newDurationRight \<le> totalDuration tln
                         then no_updates\<lparr>upd_duration := Some newDurationRight\<rparr>
                         else no_updates))
              in if updates \<noteq> no_updates then Some (drag_cueId dragState, updates) else None))"

text \<open>An \<^verbatim>\<open>onCueUpdate\<close>/\<^verbatim>\<open>onUpdate\<close> call, if made, runs \<^verbatim>\<open>handleUpdateCue\<close> of the editor.\<close>

definition deliver :: "Editor \<Rightarrow> (string \<times> CueUpdates) option \<Rightarrow> Editor" where
  "deliver ed call = (case call of None \<Rightarrow> ed | Some (cueId, updates) \<Rightarrow> handleUpdateCue ed cueId updates)"

text \<open>One pointer-move event of a cue drag, from the event to the editor state after it.\<close>

definition dragMouseMove :: "Timeline \<Rightarrow> DragState \<Rightarrow> real \<Rightarrow> Editor \<Rightarrow> Editor" where
  "dragMouseMove tln dragState clientX ed =
     deliver ed (handleMouseMove tln dragState (cues ed) clientX)"

subsection \<open>The editing surfaces wired to the editor\<close>

text \<open>
  \<^verbatim>\<open>HaptoEditor\<close> passes \<^verbatim>\<open>handleUpdateCue\<close> to the timeline as \<^verbatim>\<open>onCueUpdate\<close> and to the
  adjustments panel as \<^verbatim>\<open>onUpdate\<close>; the panel is rendered for \<^verbatim>\<open>selectedCue\<close> only. These are
  all the callers of the update operation. An event of an editing surface is a pointer move of
  a cue drag or an input of the panel; \<open>surfaceCall\<close> is the update call the event makes in
  the current editor state, \<open>runEvents\<close> runs a sequence of events.
\<close>

datatype SurfaceEvent =
    CueDragMove Timeline DragState real
  | DurationInput "real option"
  | SliderChange ParamField real
  | ResetClick ParamField

definition panelCall :: "HapticCue \<Rightarrow> SurfaceEvent \<Rightarrow> (string \<times> CueUpdates) option" where
  "panelCall cue ev =
     (case ev of
        CueDragMove _ _ _ \<Rightarrow> None
      | DurationInput parsed \<Rightarrow> handleDurationChange cue parsed
      | SliderChange field v \<Rightarrow>
          (case field of
             Intensity \<Rightarrow> handleIntensityChange cue v
           | Sharpness \<Rightarrow> handleSharpnessChange cue v
           | IntensityStart \<Rightarrow> handleIntensityStartChange cue v
           | IntensityEnd \<Rightarrow> handleIntensityEndChange cue v
           | SharpnessStart \<Rightarrow> handleSharpnessStartChange cue v
           | SharpnessEnd \<Rightarrow> handleSharpnessEndChange cue v)
      | ResetClick field \<Rightarrow> resetButton cue field)"

definition surfaceCall :: "Editor \<Rightarrow> SurfaceEvent \<Rightarrow> (string \<times> CueUpdates) option" where
  "surfaceCall ed ev =
     (case ev of
        CueDragMove tln dragState clientX \<Rightarrow> handleMouseMove tln dragState (cues ed) clientX
      | _ \<Rightarrow> (case selectedCue ed of None \<Rightarrow> None | Some cue \<Rightarrow> panelCall cue ev))"

fun runEvents :: "Editor \<Rightarrow> SurfaceEvent list \<Rightarrow> Editor" where
  "runEvents ed [] = ed"
| "runEvents ed (ev # evs) = runEvents (deliver ed (surfaceCall ed ev)) evs"

subsection \<open>Waveform synthesis (\<^verbatim>\<open>lib/waveform-generator.ts\<close>)\<close>

record WaveformPoint =
  pt_x :: real
  pt_y :: real

text \<open>
  \<^verbatim>\<open>viewBox\<close> is the string \<^verbatim>\<open>`0 0 ${width} ${height}`\<close>; the model keeps the two numbers it
  prints.
\<close>

record WaveformData =
  points :: "WaveformPoint list"
  viewBox :: "real \<times> real"
  color :: string

text \<open>
  \<^verbatim>\<open>Math.pow\<close> on the bases the generators pass, which are never negative: a zero exponent
  gives 1 also at base 0 (where \<open>powr\<close> gives 0). The exponents are positive for sharpness
  values in [0, 1], the range the sliders allow; base 0 with a negative exponent (infinite in
  the source) is outside the model. \<^verbatim>\<open>a % b\<close> truncates the quotient towards zero, so the
  result has the sign of \<open>a\<close>.
\<close>

definition Math_pow :: "real \<Rightarrow> real \<Rightarrow> real" where
  "Math_pow base e = (if e = 0 then 1 else base powr e)"

definition js_rem :: "real \<Rightarrow> real \<Rightarrow> real" where
  "js_rem a b = a - b * real_of_int (if a / b \<ge> 0 then \<lfloor>a / b\<rfloor> else \<lceil>a / b\<rceil>)"

definition getWaveformColor :: "CueType \<Rightarrow> string" where
  "getWaveformColor cueType =
     (case cueType of
        rumble_low \<Rightarrow> ''#E0E7FF''
      | rumble_high \<Rightarrow> ''#F3E8FF''
      | kick_soft \<Rightarrow> ''#F0F9FF''
      | kick_hard \<Rightarrow> ''#ECFEFF''
      | heartbeat_slow \<Rightarrow> ''#FFFBEB''
      | heartbeat_fast \<Rightarrow> ''#FFF7ED''
      | pulse \<Rightarrow> ''#F0FDF4''
      | explosion \<Rightarrow> ''#FEF2F2''
      | ramp_up \<Rightarrow> ''#F8FAFC''
      | ramp_down \<Rightarrow> ''#F8FAFC'')"

definition applySharpnessFilter :: "real \<Rightarrow> real \<Rightarrow> real" where
  "applySharpnessFilter v sharpn =
     (let sharpnessClamp = max 0 (min 1 sharpn)
      in if v \<ge> 0 then Math_pow v (1 - sharpnessClamp * 0.7)
         else - Math_pow (- v) (1 - sharpnessClamp * 0.7))"

text \<open>
  The two lines every static generator starts with:
  \<^verbatim>\<open>isStaticCue(cue) ? cue.intensity : (cue.intensity_start + cue.intensity_end) / 2\<close>, and
  the same for sharpness.
\<close>

definition cueIntensity :: "HapticCue \<Rightarrow> real" where
  "cueIntensity cue =
     (if isStaticCue cue then intensity (props cue)
      else (intensity_start (props cue) + intensity_end (props cue)) / 2)"

definition cueSharpness :: "HapticCue \<Rightarrow> real" where
  "cueSharpness cue =
     (if isStaticCue cue then sharpness (props cue)
      else (sharpness_start (props cue) + sharpness_end (props cue)) / 2)"

text \<open>
  Each generator is a \<^verbatim>\<open>for (let i = 0; i < sampleCount; i++)\<close> loop that pushes one point
  per \<open>i\<close>: the loop body is a function of \<open>i\<close> and the point list is its map over
  \<open>[0..<sampleCount]\<close>.

  \<^verbatim>\<open>Math.random()\<close> is the parameter \<open>rnd\<close>: \<open>rnd i\<close> is the number drawn in iteration \<open>i\<close>.
\<close>

definition rumblePoint ::
  "(nat \<Rightarrow> real) \<Rightarrow> HapticCue \<Rightarrow> real \<Rightarrow> real \<Rightarrow> int \<Rightarrow> real \<Rightarrow> nat \<Rightarrow> WaveformPoint" where
  "rumblePoint rnd cue width height sampleCount baseFrequency i =
     (let centerY = height / 2;
          intens = cueIntensity cue;
          sharpn = cueSharpness cue;
          maxAmplitude = height * 0.4;
          amplitude = intens * maxAmplitude;
          cycleCount = max 1 (real_of_int \<lfloor>duration cue * baseFrequency\<rfloor>);
          x = (real i / (real_of_int sampleCount - 1)) * width;
          t = (real i / (real_of_int sampleCount - 1)) * cycleCount * 2 * pi;
          harmonicIntensity = sharpn * 0.3;
          rawValue = sin t + sin (t * 2) * harmonicIntensity * 0.5
                       + sin (t * 3) * harmonicIntensity * 0.25;
          shapedValue = applySharpnessFilter rawValue sharpn;
          randomVariation = (rnd i - 0.5) * 0.05 * intens;
          y = centerY - (shapedValue * amplitude + randomVariation * amplitude)
      in \<lparr>pt_x = x, pt_y = y\<rparr>)"

definition generateAccurateRumbleWave ::
  "(nat \<Rightarrow> real) \<Rightarrow> HapticCue \<Rightarrow> real \<Rightarrow> real \<Rightarrow> int \<Rightarrow> real \<Rightarrow> string \<Rightarrow> WaveformData" where
  "generateAccurateRumbleWave rnd cue width height sampleCount baseFrequency col =
     \<lparr>points = map (rumblePoint rnd cue width height sampleCount baseFrequency)
                  [0..<nat sampleCount],
      viewBox = (width, height), color = col\<rparr>"

datatype ImpactKind = soft | hard

definition impactPoint ::
  "HapticCue \<Rightarrow> real \<Rightarrow> real \<Rightarrow> int \<Rightarrow> ImpactKind \<Rightarrow> nat \<Rightarrow> WaveformPoint" where
  "impactPoint cue width height sampleCount kind i =
     (let centerY = height / 2;
          intens = cueIntensity cue;
          sharpn = cueSharpness cue;
          maxAmplitude = height * 0.45;
          amplitude = intens * maxAmplitude;
          peakPosition = (if kind = hard then 0.15 else 0.25);
          peakWidth = (if kind = hard then 0.08 else 0.15);
          decayRate = (if kind = hard then 12 else 6);
          x = (real i / (real_of_int sampleCount - 1)) * width;
          t = real i / (real_of_int sampleCount - 1);
          y = (if t \<le> peakPosition + peakWidth then
                 (let distFromPeak = \<bar>t - peakPosition\<bar>
                  in if distFromPeak \<le> peakWidth then
                       (let peakFactor = 1 - (distFromPeak / peakWidth);
                            spikeValue = applySharpnessFilter (sin (peakFactor * pi * 0.5)) sharpn;
                            spikeHeight = spikeValue * amplitude
                        in centerY - spikeHeight)
                     else centerY)
               else
                 (let decayTime = t - (peakPosition + peakWidth);
                      decayFactor = exp (- decayTime * decayRate);
                      vibrationFreq = 20 * (1 + sharpn);
                      vibration = sin (decayTime * vibrationFreq * 2 * pi) * 0.1;
                      decayHeight = amplitude * 0.2 * decayFactor * (1 + vibration)
                  in centerY - decayHeight))
      in \<lparr>pt_x = x, pt_y = y\<rparr>)"

definition generateAccurateImpactWave ::
  "HapticCue \<Rightarrow> real \<Rightarrow> real \<Rightarrow> int \<Rightarrow> ImpactKind \<Rightarrow> string \<Rightarrow> WaveformData" where
  "generateAccurateImpactWave cue width height sampleCount kind col =
     \<lparr>points = map (impactPoint cue width height sampleCount kind) [0..<nat sampleCount],
      viewBox = (width, height), color = col\<rparr>"

definition heartbeatPoint ::
  "HapticCue \<Rightarrow> real \<Rightarrow> real \<Rightarrow> int \<Rightarrow> real \<Rightarrow> nat \<Rightarrow> WaveformPoint" where
  "heartbeatPoint cue width height sampleCount beatInterval i =
     (let centerY = height / 2;
          intens = cueIntensity cue;
          sharpn = cueSharpness cue;
          maxAmplitude = height * 0.4;
          amplitude = intens * maxAmplitude;
          totalBeats = duration cue / beatInterval;
          x = (real i / (real_of_int sampleCount - 1)) * width;
          t = (real i / (real_of_int sampleCount - 1)) * totalBeats;
          beatPhase = js_rem t 1;
          y = (if beatPhase < 0.12 then
                 (let s1Phase = beatPhase / 0.12;
                      s1Value = applySharpnessFilter (sin (s1Phase * pi)) sharpn
                  in centerY - s1Value * amplitude * 0.8)
               else if beatPhase > 0.18 \<and> beatPhase < 0.28 then
                 (let s2Phase = (beatPhase - 0.18) / 0.10;
                      s2Value = applySharpnessFilter (sin (s2Phase * pi)) sharpn
                  in centerY - s2Value * amplitude * 0.5)
               else if beatPhase > 0.28 \<and> beatPhase < 0.35 then
                 (let afterPhase = (beatPhase - 0.28) / 0.07;
                      afterValue = sin (afterPhase * pi) * 0.15
                  in centerY - afterValue * amplitude)
               else centerY)
      in \<lparr>pt_x = x, pt_y = y\<rparr>)"

definition generateAccurateHeartbeatWave ::
  "HapticCue \<Rightarrow> real \<Rightarrow> real \<Rightarrow> int \<Rightarrow> real \<Rightarrow> string \<Rightarrow> WaveformData" where
  "generateAccurateHeartbeatWave cue width height sampleCount beatInterval col =
     \<lparr>points = map (heartbeatPoint cue width height sampleCount beatInterval)
                  [0..<nat sampleCount],
      viewBox = (width, height), color = col\<rparr>"

text \<open>
  The pulse loop body, in two parts: \<open>pulsePhaseAt\<close> is \<^verbatim>\<open>pulsePhase\<close> of iteration \<open>i\<close> and
  \<open>dutyCycleOf\<close> is \<^verbatim>\<open>dutyCycle\<close>; the sample is in its OFF phase when
  \<^verbatim>\<open>pulsePhase < dutyCycle\<close> fails.
\<close>

definition dutyCycleOf :: "HapticCue \<Rightarrow> real" where
  "dutyCycleOf cue = 0.3 + cueSharpness cue * 0.3"

definition pulsePhaseAt :: "HapticCue \<Rightarrow> int \<Rightarrow> nat \<Rightarrow> real" where
  "pulsePhaseAt cue sampleCount i =
     (let pulsesPerSecond = 3 + cueSharpness cue * 4;
          totalPulses = duration cue * pulsesPerSecond;
          t = (real i / (real_of_int sampleCount - 1)) * totalPulses
      in js_rem t 1)"

definition pulsePoint :: "HapticCue \<Rightarrow> real \<Rightarrow> real \<Rightarrow> int \<Rightarrow> nat \<Rightarrow> WaveformPoint" where
  "pulsePoint cue width height sampleCount i =
     (let centerY = height / 2;
          intens = cueIntensity cue;
          sharpn = cueSharpness cue;
          maxAmplitude = height * 0.4;
          amplitude = intens * maxAmplitude;
          dutyCycle = dutyCycleOf cue;
          x = (real i / (real_of_int sampleCount - 1)) * width;
          pulsePhase = pulsePhaseAt cue sampleCount i;
          y = (if pulsePhase < dutyCycle then
                 (let edgeSmoothing = (1 - sharpn) * 0.1;
                      pulseValue =
                        (if pulsePhase < edgeSmoothing then pulsePhase / edgeSmoothing
                         else if pulsePhase > dutyCycle - edgeSmoothing
                           then (dutyCycle - pulsePhase) / edgeSmoothing
                         else 1)
                  in centerY - pulseValue * amplitude)
               else centerY - amplitude * 0.05)
      in \<lparr>pt_x = x, pt_y = y\<rparr>)"

definition generateAccuratePulseWave ::
  "HapticCue \<Rightarrow> real \<Rightarrow> real \<Rightarrow> int \<Rightarrow> string \<Rightarrow> WaveformData" where
  "generateAccuratePulseWave cue width height sampleCount col =
     \<lparr>points = map (pulsePoint cue width height sampleCount) [0..<nat sampleCount],
      viewBox = (width, height), color = col\<rparr>"

definition explosionPoint :: "HapticCue \<Rightarrow> real \<Rightarrow> real \<Rightarrow> int \<Rightarrow> nat \<Rightarrow> WaveformPoint" where
  "explosionPoint cue width height sampleCount i =
     (let centerY = height / 2;
          intens = cueIntensity cue;
          sharpn = cueSharpness cue;
          maxAmplitude = height * 0.45;
          amplitude = intens * maxAmplitude;
          blastDuration = 0.08 + (1 - sharpn) * 0.05;
          decayRate = 4 + sharpn * 8;
          aftershockFreq = 15 + sharpn * 20;
          x = (real i / (real_of_int sampleCount - 1)) * width;
          t = real i / (real_of_int sampleCount - 1);
          y = (if t < blastDuration then
                 (let blastPhase = t / blastDuration;
                      blastValue = applySharpnessFilter (Math_pow (1 - blastPhase) 0.3) sharpn
                  in centerY - blastValue * amplitude)
               else
                 (let decayTime = t - blastDuration;
                      primaryDecay = exp (- decayTime * decayRate);
                      aftershockPhase = decayTime * aftershockFreq * 2 * pi;
                      aftershock = sin aftershockPhase * exp (- decayTime * 3) * 0.3;
                      totalDecay = primaryDecay * (1 + aftershock)
                  in centerY - totalDecay * amplitude * 0.4))
      in \<lparr>pt_x = x, pt_y = y\<rparr>)"

definition generateAccurateExplosionWave ::
  "HapticCue \<Rightarrow> real \<Rightarrow> real \<Rightarrow> int \<Rightarrow> string \<Rightarrow> WaveformData" where
  "generateAccurateExplosionWave cue width height sampleCount col =
     \<lparr>points = map (explosionPoint cue width height sampleCount) [0..<nat sampleCount],
      viewBox = (width, height), color = col\<rparr>"

text \<open>
  The ramp loop body, in parts. \<open>rampProgress\<close> is \<^verbatim>\<open>t\<close>, \<open>currentSharpnessAt\<close> and
  \<open>currentIntensityAt\<close> are the interpolated parameters, \<open>curveShaping\<close> is the step
  "apply curve shaping based on current sharpness" (both branches overwrite the initial
  \<^verbatim>\<open>rampValue = t\<close>), and \<open>rampValueAt\<close> is \<^verbatim>\<open>rampValue\<close> as it enters \<^verbatim>\<open>y\<close>, after the
  \<^verbatim>\<open>ramp_down\<close> step.
\<close>

definition rampProgress :: "int \<Rightarrow> nat \<Rightarrow> real" where
  "rampProgress sampleCount i = real i / (real_of_int sampleCount - 1)"

definition currentIntensityAt :: "HapticCue \<Rightarrow> real \<Rightarrow> real" where
  "currentIntensityAt cue t =
     intensity_start (props cue) + (intensity_end (props cue) - intensity_start (props cue)) * t"

definition currentSharpnessAt :: "HapticCue \<Rightarrow> real \<Rightarrow> real" where
  "currentSharpnessAt cue t =
     sharpness_start (props cue) + (sharpness_end (props cue) - sharpness_start (props cue)) * t"

definition curveShaping :: "real \<Rightarrow> real \<Rightarrow> real" where
  "curveShaping currentSharpness t =
     (if currentSharpness > 0.5 then
        (let sharpnessFactor = (currentSharpness - 0.5) * 2
         in Math_pow t (1 - sharpnessFactor * 0.5))
      else
        (let smoothnessFactor = (0.5 - currentSharpness) * 2
         in 1 - Math_pow (1 - t) (1 + smoothnessFactor * 0.5)))"

definition rampValueAt :: "HapticCue \<Rightarrow> real \<Rightarrow> real" where
  "rampValueAt cue t =
     (let rampValue = curveShaping (currentSharpnessAt cue t) t
      in if cue_type cue = ramp_down then 1 - rampValue else rampValue)"

definition rampPoint :: "HapticCue \<Rightarrow> real \<Rightarrow> real \<Rightarrow> int \<Rightarrow> nat \<Rightarrow> WaveformPoint" where
  "rampPoint cue width height sampleCount i =
     (let centerY = height / 2
      in if \<not> isRampCue cue then
           (let intens = (if isStaticCue cue then intensity (props cue) else 0.5);
                amplitude = intens * height * 0.4;
                x = (real i / (real_of_int sampleCount - 1)) * width
            in \<lparr>pt_x = x, pt_y = centerY - amplitude * 0.5\<rparr>)
         else
           (let maxAmplitude = height * 0.45;
                x = (real i / (real_of_int sampleCount - 1)) * width;
                t = rampProgress sampleCount i;
                currentIntensity = currentIntensityAt cue t;
                currentSharpness = currentSharpnessAt cue t;
                amplitude = currentIntensity * maxAmplitude;
                microFreq = 25 + currentSharpness * 15;
                microVariation = sin (t * microFreq * 2 * pi) * 0.02 * currentIntensity;
                rampValue = rampValueAt cue t;
                y = centerY - (rampValue * amplitude + microVariation * amplitude)
            in \<lparr>pt_x = x, pt_y = y\<rparr>))"

definition generateAccurateRampWave ::
  "HapticCue \<Rightarrow> real \<Rightarrow> real \<Rightarrow> int \<Rightarrow> string \<Rightarrow> WaveformData" where
  "generateAccurateRampWave cue width height sampleCount col =
     \<lparr>points = map (rampPoint cue width height sampleCount) [0..<nat sampleCount],
      viewBox = (width, height), color = col\<rparr>"

text \<open>
  \<^verbatim>\<open>generateWaveformData(cue, width, height, zoomLevel)\<close>. \<open>sampleCountOf\<close> is its
  \<^verbatim>\<open>sampleCount\<close>. The \<^verbatim>\<open>default\<close> branch of the \<^verbatim>\<open>switch\<close> has no \<open>CueType\<close> left to take.
\<close>

definition sampleCountOf :: "HapticCue \<Rightarrow> real \<Rightarrow> int" where
  "sampleCountOf cue zoom =
     (let baseSampleRate = 60
      in max 32 (min 512 \<lfloor>duration cue * baseSampleRate * sqrt zoom\<rfloor>))"

definition generateWaveformData ::
  "(nat \<Rightarrow> real) \<Rightarrow> HapticCue \<Rightarrow> real \<Rightarrow> real \<Rightarrow> real \<Rightarrow> WaveformData" where
  "generateWaveformData rnd cue width height zoom =
     (let col = getWaveformColor (cue_type cue);
          sampleCount = sampleCountOf cue zoom
      in case cue_type cue of
           rumble_low \<Rightarrow> generateAccurateRumbleWave rnd cue width height sampleCount 2.0 col
         | rumble_high \<Rightarrow> generateAccurateRumbleWave rnd cue width height sampleCount 8.0 col
         | kick_soft \<Rightarrow> generateAccurateImpactWave cue width height sampleCount soft col
         | kick_hard \<Rightarrow> generateAccurateImpactWave cue width height sampleCount hard col
         | heartbeat_slow \<Rightarrow> generateAccurateHeartbeatWave cue width height sampleCount 1.2 col
         | heartbeat_fast \<Rightarrow> generateAccurateHeartbeatWave cue width height sampleCount 0.6 col
         | pulse \<Rightarrow> generateAccuratePulseWave cue width height sampleCount col
         | explosion \<Rightarrow> generateAccurateExplosionWave cue width height sampleCount col
         | ramp_up \<Rightarrow> generateAccurateRampWave cue width height sampleCount col
         | ramp_down \<Rightarrow> generateAccurateRampWave cue width height sampleCount col)"

subsection \<open>Example inputs\<close>

definition cue_a :: HapticCue where
  "cue_a = \<lparr>cue_id = ''a'', cue_type = kick_hard, startTime = 0, duration = 1, track = 0,
            props = StaticCueProperties 0.8 0.5\<rparr>"

definition cue_b :: HapticCue where
  "cue_b = \<lparr>cue_id = ''b'', cue_type = pulse, startTime = 1, duration = 1, track = 0,
            props = StaticCueProperties 0.8 0.5\<rparr>"

definition cue_c :: HapticCue where
  "cue_c = \<lparr>cue_id = ''c'', cue_type = ramp_down, startTime = 3, duration = 2, track = 1,
            props = RampCueProperties 1.0 0.1 0.7 0.1\<rparr>"

definition no_selection :: SelectionState where
  "no_selection = \<lparr>selectedCueIds = {}, marqueeSelection = None\<rparr>"

definition editor_abc :: Editor where
  "editor_abc = \<lparr>cues = [cue_a, cue_b, cue_c], selectedCue = None, selectionState = no_selection\<rparr>"

definition editor_ab :: Editor where
  "editor_ab = \<lparr>cues = [cue_a, cue_b], selectedCue = None, selectionState = no_selection\<rparr>"

definition cue_d :: HapticCue where
  "cue_d = \<lparr>cue_id = ''d'', cue_type = rumble_low, startTime = 6, duration = 1, track = 0,
            props = StaticCueProperties 0.8 0.5\<rparr>"

definition cue_e :: HapticCue where
  "cue_e = \<lparr>cue_id = ''e'', cue_type = rumble_high, startTime = 6, duration = 8, track = 1,
            props = StaticCueProperties 0.8 0.5\<rparr>"

text \<open>A 20 s timeline, 800 px wide: at zoom 1, and after one zoom-in from there.\<close>

definition view_fit :: Timeline where
  "view_fit = \<lparr>totalDuration = 20, zoomLevel = 1, viewStartTime = 0, offsetWidth = Some 800\<rparr>"

definition view_zoomed :: Timeline where
  "view_zoomed = \<lparr>totalDuration = 20, zoomLevel = 2, viewStartTime = 5, offsetWidth = Some 800\<rparr>"

definition editor_b_selected :: Editor where
  "editor_b_selected = editor_abc\<lparr>selectedCue := Some cue_b\<rparr>"

definition cue_r :: HapticCue where
  "cue_r = \<lparr>cue_id = ''r'', cue_type = ramp_down, startTime = 0, duration = 0.69, track = 0,
            props = RampCueProperties 1 1 1 1\<rparr>"

section \<open>Theorems\<close>

subsection \<open>Deleting the multi-selection\<close>

text \<open>
  Claim C10. Deleting the current multi-selection removes exactly the cues whose ids are in the
  selected set: the remaining list is the old list filtered by "id not selected", so every cue
  outside the set is kept as it is and the order of the kept cues is the old one (the new list is
  a subsequence of the old). With an empty selection set the cue list, the primary selection and
  the selection set are all unchanged.
\<close>

theorem handleDeleteSelectedCues_frame:
  fixes ed :: Editor
  defines "ids \<equiv> selectedCueIds (selectionState ed)"
  defines "ed' \<equiv> handleDeleteSelectedCues ed"
  shows "(ids = {} \<longrightarrow> ed' = ed)
       \<and> cues ed' = filter (\<lambda>cue. cue_id cue \<notin> ids) (cues ed)
       \<and> subseq (cues ed') (cues ed)
       \<and> set (cues ed') = {cue \<in> set (cues ed). cue_id cue \<notin> ids}
       \<and> (\<forall>cue \<in> set (cues ed). cue_id cue \<notin> ids \<longrightarrow> cue \<in> set (cues ed'))
       \<and> (ids \<noteq> {} \<longrightarrow> selectedCue ed' = None \<and> selectedCueIds (selectionState ed') = {})"
proof -
  have flt: "cues ed' = filter (\<lambda>cue. cue_id cue \<notin> ids) (cues ed)"
    by (simp add: ed'_def ids_def handleDeleteSelectedCues_def Let_def)
  have keep: "ids = {} \<longrightarrow> ed' = ed"
    by (simp add: ed'_def ids_def handleDeleteSelectedCues_def Let_def)
  have sel: "ids \<noteq> {} \<longrightarrow> selectedCue ed' = None \<and> selectedCueIds (selectionState ed') = {}"
    by (simp add: ed'_def ids_def handleDeleteSelectedCues_def Let_def)
  have sub: "subseq (cues ed') (cues ed)"
    unfolding flt by (rule subseq_filter_left)
  have st: "set (cues ed') = {cue \<in> set (cues ed). cue_id cue \<notin> ids}"
    unfolding flt by auto
  from flt keep sel sub st show ?thesis by simp
qed

theorem handleDeleteSelectedCues_frame_witness:
  "selectedCueIds (selectionState (editor_abc\<lparr>selectedCue := Some cue_b,
       selectionState := no_selection\<lparr>selectedCueIds := {''b''}\<rparr>\<rparr>)) \<noteq> {}
   \<and> cues (handleDeleteSelectedCues (editor_abc\<lparr>selectedCue := Some cue_b,
       selectionState := no_selection\<lparr>selectedCueIds := {''b''}\<rparr>\<rparr>)) = [cue_a, cue_c]
   \<and> selectedCue (handleDeleteSelectedCues (editor_abc\<lparr>selectedCue := Some cue_b,
       selectionState := no_selection\<lparr>selectedCueIds := {''b''}\<rparr>\<rparr>)) = None
   \<and> selectedCueIds (selectionState editor_abc) = {}
   \<and> handleDeleteSelectedCues editor_abc = editor_abc"
  using handleDeleteSelectedCues_frame
          [of "editor_abc\<lparr>selectedCue := Some cue_b,
                 selectionState := no_selection\<lparr>selectedCueIds := {''b''}\<rparr>\<rparr>"]
        handleDeleteSelectedCues_frame [of editor_abc]
  by (simp add: editor_abc_def no_selection_def cue_a_def cue_b_def cue_c_def)

subsection \<open>Time to pixel and back\<close>

text \<open>
  Claim C2. For a view with \<open>visibleDuration > 0\<close> and a mounted timeline of positive width
  \<open>w\<close>, \<open>timeToPixel t = (t - viewStartTime) / visibleDuration * w\<close>, and \<open>pixelToTime\<close>
  inverts it: \<open>pixelToTime (timeToPixel t) = t\<close> for every time \<open>t\<close>, in real arithmetic.
\<close>

theorem pixelToTime_timeToPixel:
  assumes "visibleDuration tln > 0" and "offsetWidth tln = Some w" and "w > 0"
  shows "timeToPixel tln t = (t - viewStartTime tln) / visibleDuration tln * w
       \<and> pixelToTime tln (timeToPixel tln t) = t"
  using assms by (simp add: timeToPixel_def pixelToTime_def Let_def)

theorem pixelToTime_timeToPixel_witness:
  "visibleDuration view_zoomed > 0 \<and> offsetWidth view_zoomed = Some 800 \<and> (800::real) > 0
   \<and> timeToPixel view_zoomed 7 = 160 \<and> pixelToTime view_zoomed (timeToPixel view_zoomed 7) = 7"
proof -
  have h1: "visibleDuration view_zoomed > 0" by (simp add: view_zoomed_def visibleDuration_def)
  have h2: "offsetWidth view_zoomed = Some 800" by (simp add: view_zoomed_def)
  have h3: "(800::real) > 0" by simp
  have v: "visibleDuration view_zoomed = 10" "viewStartTime view_zoomed = 5"
    by (simp_all add: view_zoomed_def visibleDuration_def)
  note r = pixelToTime_timeToPixel [OF h1 h2 h3, of 7]
  have a: "timeToPixel view_zoomed 7 = 160"
    using r [THEN conjunct1] by (simp add: v)
  have b: "pixelToTime view_zoomed (timeToPixel view_zoomed 7) = 7"
    by (rule r [THEN conjunct2])
  from h1 h2 h3 a b show ?thesis by blast
qed

subsection \<open>Track assignment on insertion\<close>

declare findAvailableTrackFrom.simps [simp del]

lemma findAvailableTrackFrom_free:
  "k \<le> trk \<Longrightarrow> trk < 8 \<Longrightarrow> \<not> hasConflict cs time trk \<Longrightarrow>
   (\<forall>j. k \<le> j \<and> j < trk \<longrightarrow> hasConflict cs time j) \<Longrightarrow>
   findAvailableTrackFrom cs time p k = trk"
proof (induction cs time p k rule: findAvailableTrackFrom.induct)
  case (1 cs time p k)
  show ?case
  proof (cases "k = trk")
    case True
    with 1 show ?thesis by (simp add: findAvailableTrackFrom.simps [of cs time p trk])
  next
    case False
    with 1 have lt: "k < trk" and c: "hasConflict cs time k" by auto
    from lt "1.prems" have "k < 8" by simp
    moreover have "findAvailableTrackFrom cs time p (k + 1) = trk"
      using "1.IH" [OF \<open>k < 8\<close>] c lt "1.prems" by auto
    ultimately show ?thesis using c by (simp add: findAvailableTrackFrom.simps [of cs time p k])
  qed
qed

lemma findAvailableTrackFrom_full:
  "(\<forall>j. k \<le> j \<and> j < 8 \<longrightarrow> hasConflict cs time j) \<Longrightarrow>
   findAvailableTrackFrom cs time p k = p"
proof (induction cs time p k rule: findAvailableTrackFrom.induct)
  case (1 cs time p k)
  show ?case
  proof (cases "k < 8")
    case True
    with "1.prems" have c: "hasConflict cs time k" by simp
    have "findAvailableTrackFrom cs time p (k + 1) = p"
      using "1.IH" [OF True] c "1.prems" by auto
    with True c show ?thesis by (simp add: findAvailableTrackFrom.simps [of cs time p k])
  next
    case False
    then show ?thesis by (simp add: findAvailableTrackFrom.simps [of cs time p k])
  qed
qed

lemma hasConflict_iff:
  "hasConflict cs time trk \<longleftrightarrow>
     (\<exists>cue \<in> set cs. track cue = trk \<and> startTime cue \<le> time
                      \<and> time \<le> startTime cue + duration cue)"
  by (simp add: hasConflict_def list_ex_iff)

text \<open>
  Claim C6. Inserting a cue with no target track appends one cue, at the requested start
  time. Call a track occupied when some existing cue on it has the start instant in its closed
  interval \<open>[startTime, startTime + duration]\<close>. The new cue's track is the first of the tracks
  0..7 that is not occupied, and track 0 when all eight are occupied. In particular, with
  track 0 occupied and track 1 free the cue lands on track 1.
\<close>

theorem findAvailableTrack_first_free:
  fixes ed :: Editor and time :: real and now :: string and type :: CueType
  defines "occupied \<equiv> \<lambda>trk. \<exists>cue \<in> set (cues ed).
             track cue = trk \<and> startTime cue \<le> time \<and> time \<le> startTime cue + duration cue"
  defines "ed' \<equiv> handleAddCue now ed type time None"
  shows "cues ed' = butlast (cues ed') @ [last (cues ed')]
       \<and> butlast (cues ed') = cues ed
       \<and> startTime (last (cues ed')) = time
       \<and> (\<forall>trk. 0 \<le> trk \<and> trk < 8 \<and> \<not> occupied trk \<and> (\<forall>j. 0 \<le> j \<and> j < trk \<longrightarrow> occupied j)
              \<longrightarrow> track (last (cues ed')) = trk)
       \<and> ((\<forall>trk. 0 \<le> trk \<and> trk < 8 \<longrightarrow> occupied trk) \<longrightarrow> track (last (cues ed')) = 0)
       \<and> (occupied 0 \<and> \<not> occupied 1 \<longrightarrow> track (last (cues ed')) = 1)"
proof -
  have occ: "occupied trk \<longleftrightarrow> hasConflict (cues ed) time trk" for trk
    by (simp add: occupied_def hasConflict_iff)
  have trk: "track (last (cues ed')) = findAvailableTrack (cues ed) time 0"
    by (simp add: ed'_def handleAddCue_def Let_def)
  have shape: "butlast (cues ed') = cues ed" "startTime (last (cues ed')) = time"
              "cues ed' = butlast (cues ed') @ [last (cues ed')]"
    by (simp_all add: ed'_def handleAddCue_def Let_def)
  have first: "track (last (cues ed')) = t"
    if "0 \<le> t" "t < 8" "\<not> occupied t" "\<forall>j. 0 \<le> j \<and> j < t \<longrightarrow> occupied j" for t
    unfolding trk findAvailableTrack_def
    using that by (intro findAvailableTrackFrom_free) (simp_all add: occ)
  have full: "track (last (cues ed')) = 0" if "\<forall>t. 0 \<le> t \<and> t < 8 \<longrightarrow> occupied t"
    unfolding trk findAvailableTrack_def
    using that by (intro findAvailableTrackFrom_full) (simp add: occ)
  have one: "track (last (cues ed')) = 1" if "occupied 0" "\<not> occupied 1"
  proof (rule first)
    show "\<forall>j. 0 \<le> j \<and> j < (1::int) \<longrightarrow> occupied j"
    proof (intro allI impI)
      fix j :: int assume "0 \<le> j \<and> j < 1"
      then have "j = 0" by simp
      with that show "occupied j" by simp
    qed
  qed (use that in simp_all)
  from shape first full one show ?thesis by blast
qed

text \<open>
  The scenario of the specification: two cues on track 0, over \<open>[0, 1]\<close> and \<open>[1, 2]\<close>; a cue
  inserted at 0.5 with no target track lands on track 1.
\<close>

theorem findAvailableTrack_first_free_witness:
  "(\<exists>cue \<in> set (cues editor_ab). track cue = 0 \<and> startTime cue \<le> 0.5
       \<and> 0.5 \<le> startTime cue + duration cue)
   \<and> \<not> (\<exists>cue \<in> set (cues editor_ab). track cue = 1 \<and> startTime cue \<le> 0.5
       \<and> 0.5 \<le> startTime cue + duration cue)
   \<and> track (last (cues (handleAddCue ''n'' editor_ab kick_soft 0.5 None))) = 1"
proof -
  have occ0: "\<exists>cue \<in> set (cues editor_ab). track cue = 0 \<and> startTime cue \<le> 0.5
                \<and> 0.5 \<le> startTime cue + duration cue"
    by (simp add: editor_ab_def cue_a_def cue_b_def)
  have free1: "\<not> (\<exists>cue \<in> set (cues editor_ab). track cue = 1 \<and> startTime cue \<le> 0.5
                \<and> 0.5 \<le> startTime cue + duration cue)"
    by (simp add: editor_ab_def cue_a_def cue_b_def)
  from findAvailableTrack_first_free [of "''n''" editor_ab kick_soft "0.5"] occ0 free1
  have "track (last (cues (handleAddCue ''n'' editor_ab kick_soft 0.5 None))) = 1"
    by blast
  with occ0 free1 show ?thesis by blast
qed

subsection \<open>Cue drag gestures\<close>

lemma spread_props_untouched:
  "upd_intensity u = None \<Longrightarrow> upd_sharpness u = None \<Longrightarrow>
   upd_intensity_start u = None \<Longrightarrow> upd_intensity_end u = None \<Longrightarrow>
   upd_sharpness_start u = None \<Longrightarrow> upd_sharpness_end u = None \<Longrightarrow>
   spread_props p u = p"
  by (cases p) (simp_all add: spread_props_def override_def)

lemma spread_resize_left:
  "spread c (no_updates\<lparr>upd_startTime := Some s, upd_duration := Some d\<rparr>)
     = c\<lparr>startTime := s, duration := d\<rparr>"
  by (simp add: spread_def spread_props_untouched no_updates_def override_def)

lemma spread_duration_only:
  "spread c (no_updates\<lparr>upd_duration := Some d\<rparr>) = c\<lparr>duration := d\<rparr>"
  by (simp add: spread_def spread_props_untouched no_updates_def override_def)

lemma spread_startTime_only:
  "spread c (no_updates\<lparr>upd_startTime := Some s\<rparr>) = c\<lparr>startTime := s\<rparr>"
  by (simp add: spread_def spread_props_untouched no_updates_def override_def)

lemma handleMouseMove_resize_left:
  assumes "drag_type ds = resize_left"
  shows "handleMouseMove tln ds cs x =
     (let dt = pixelToTime tln (x - drag_startX ds);
          s' = max 0 (drag_startTime ds + dt);
          d' = drag_startDuration ds - (s' - drag_startTime ds)
      in if find (\<lambda>c. cue_id c = drag_cueId ds) cs \<noteq> None \<and> d' > 0.1
         then Some (drag_cueId ds, no_updates\<lparr>upd_startTime := Some s', upd_duration := Some d'\<rparr>)
         else None)"
  using assms
  by (auto simp add: handleMouseMove_def Let_def no_updates_def split: option.splits)

lemma handleMouseMove_resize_right:
  assumes "drag_type ds = resize_right"
  shows "handleMouseMove tln ds cs x =
     (let dt = pixelToTime tln (x - drag_startX ds);
          d' = max 0.1 (drag_startDuration ds + dt)
      in if find (\<lambda>c. cue_id c = drag_cueId ds) cs \<noteq> None
            \<and> drag_startTime ds + d' \<le> totalDuration tln
         then Some (drag_cueId ds, no_updates\<lparr>upd_duration := Some d'\<rparr>)
         else None)"
  using assms
  by (auto simp add: handleMouseMove_def Let_def no_updates_def split: option.splits)

lemma handleMouseMove_move:
  assumes "drag_type ds = move"
  shows "handleMouseMove tln ds cs x =
     (let dt = pixelToTime tln (x - drag_startX ds)
      in if find (\<lambda>c. cue_id c = drag_cueId ds) cs \<noteq> None
         then Some (drag_cueId ds, no_updates\<lparr>upd_startTime :=
                 Some (max 0 (min (totalDuration tln - drag_startDuration ds)
                                  (drag_startTime ds + dt)))\<rparr>)
         else None)"
  using assms
  by (auto simp add: handleMouseMove_def Let_def no_updates_def split: option.splits)

text \<open>
  What a pointer move of a resize drag does, with \<open>dt\<close> the \<^verbatim>\<open>deltaTime\<close> the handler
  computes, \<open>pixelToTime\<close> of the pointer delta. Resize-left leaves the editor as it is or sets,
  on the dragged cue, \<open>startTime' = max 0 (startTime + dt)\<close> and
  \<open>duration' = startDuration - (startTime' - startTime)\<close>, and then \<open>duration' > 0.1\<close>.
  Resize-right leaves the editor as it is or sets \<open>duration' = max 0.1 (startDuration + dt)\<close>,
  and then \<open>startTime + duration' \<le> totalDuration\<close>. Here \<open>startTime\<close> and \<open>startDuration\<close>
  are those recorded at the start of the gesture.
\<close>

lemma resize_gesture_as_coded:
  fixes tln :: Timeline and ds :: DragState and ed :: Editor and clientX :: real
  defines "dt \<equiv> pixelToTime tln (clientX - drag_startX ds)"
  defines "ed' \<equiv> dragMouseMove tln ds clientX ed"
  defines "newStartTime \<equiv> max 0 (drag_startTime ds + dt)"
  defines "newDuration \<equiv> drag_startDuration ds - (newStartTime - drag_startTime ds)"
  defines "newDurationRight \<equiv> max 0.1 (drag_startDuration ds + dt)"
  shows "(drag_type ds = resize_left \<longrightarrow>
            ed' = ed
          \<or> (newDuration > 0.1
             \<and> cues ed' = map (\<lambda>c. if cue_id c = drag_cueId ds
                                    then c\<lparr>startTime := newStartTime, duration := newDuration\<rparr>
                                    else c) (cues ed)))
       \<and> (drag_type ds = resize_right \<longrightarrow>
            ed' = ed
          \<or> (drag_startTime ds + newDurationRight \<le> totalDuration tln
             \<and> cues ed' = map (\<lambda>c. if cue_id c = drag_cueId ds
                                    then c\<lparr>duration := newDurationRight\<rparr>
                                    else c) (cues ed)))
       \<and> (drag_type ds = resize_left \<longrightarrow>
            (\<forall>i < length (cues ed). cues ed' ! i = cues ed ! i \<or> duration (cues ed' ! i) > 0.1))
       \<and> (drag_type ds = resize_right \<longrightarrow>
            (\<forall>i < length (cues ed). cues ed' ! i = cues ed ! i
               \<or> (startTime (cues ed' ! i) = startTime (cues ed ! i)
                  \<and> drag_startTime ds + duration (cues ed' ! i) \<le> totalDuration tln)))"
proof -
  have L: "ed' = ed
          \<or> (newDuration > 0.1
             \<and> cues ed' = map (\<lambda>c. if cue_id c = drag_cueId ds
                                    then c\<lparr>startTime := newStartTime, duration := newDuration\<rparr>
                                    else c) (cues ed))"
    if "drag_type ds = resize_left"
    unfolding ed'_def dragMouseMove_def handleMouseMove_resize_left [OF that]
    by (simp add: Let_def deliver_def handleUpdateCue_def spread_resize_left
          newDuration_def newStartTime_def dt_def)
  have R: "ed' = ed
          \<or> (drag_startTime ds + newDurationRight \<le> totalDuration tln
             \<and> cues ed' = map (\<lambda>c. if cue_id c = drag_cueId ds
                                    then c\<lparr>duration := newDurationRight\<rparr>
                                    else c) (cues ed))"
    if "drag_type ds = resize_right"
    unfolding ed'_def dragMouseMove_def handleMouseMove_resize_right [OF that]
    by (simp add: Let_def deliver_def handleUpdateCue_def spread_duration_only
          newDurationRight_def dt_def)
  have L': "\<forall>i < length (cues ed). cues ed' ! i = cues ed ! i \<or> duration (cues ed' ! i) > 0.1"
    if "drag_type ds = resize_left"
    using L [OF that] by auto
  have R': "\<forall>i < length (cues ed). cues ed' ! i = cues ed ! i
               \<or> (startTime (cues ed' ! i) = startTime (cues ed ! i)
                  \<and> drag_startTime ds + duration (cues ed' ! i) \<le> totalDuration tln)"
    if "drag_type ds = resize_right"
    using R [OF that] by auto
  from L R L' R' show ?thesis by blast
qed

text \<open>
  Claim C3 says that a move drag shifts the cue by the pointer delta mapped through the
  time-per-pixel scale only, independent of \<open>viewStartTime\<close>. The handler maps the delta with
  \<open>pixelToTime\<close>, which adds \<open>viewStartTime\<close>. In the view reached by one zoom-in on a 20 s
  timeline (\<open>viewStartTime = 5\<close>), a pointer move with no horizontal displacement on a cue
  that starts at 6 sets its start time to 11, where the claim's formula gives 6.
\<close>

theorem move_drag_adds_pan_offset:
  "handleZoomIn view_fit = view_zoomed
   \<and> handleMouseMove view_zoomed (handleCueMouseDown 100 cue_d move) [cue_d] 100
       = Some (''d'', no_updates\<lparr>upd_startTime := Some 11\<rparr>)
   \<and> max 0 (min (totalDuration view_zoomed - duration cue_d)
                (startTime cue_d + (100 - 100) * visibleDuration view_zoomed / 800)) = 6"
proof -
  have z: "handleZoomIn view_fit = view_zoomed"
    by (simp add: handleZoomIn_def view_fit_def view_zoomed_def visibleDuration_def Let_def)
  have dm: "drag_type (handleCueMouseDown 100 cue_d move) = move"
    by (simp add: handleCueMouseDown_def)
  have m: "handleMouseMove view_zoomed (handleCueMouseDown 100 cue_d move) [cue_d] 100
       = Some (''d'', no_updates\<lparr>upd_startTime := Some 11\<rparr>)"
    by (simp add: handleMouseMove_move [OF dm])
       (simp add: handleCueMouseDown_def cue_d_def pixelToTime_def view_zoomed_def
          visibleDuration_def)
  have c: "max 0 (min (totalDuration view_zoomed - duration cue_d)
                (startTime cue_d + (100 - 100) * visibleDuration view_zoomed / 800)) = 6"
    by (simp add: view_zoomed_def cue_d_def visibleDuration_def)
  from z m c show ?thesis by blast
qed

text \<open>
  Claim C4 says that a resize drag applies \<open>startTime' = max 0 (startTime + \<Delta>t)\<close> with
  \<open>duration' = startDuration - (startTime' - startTime)\<close> (resize-left) or
  \<open>duration' = max 0.1 (startDuration + \<Delta>t)\<close> (resize-right), \<open>\<Delta>t\<close> being the pointer delta
  mapped through the time-per-pixel scale. The handler takes \<open>pixelToTime\<close> of the pointer
  delta instead, which adds \<open>viewStartTime\<close>. In the view reached by one zoom-in on a 20 s
  timeline (\<open>viewStartTime = 5\<close>, 80 pixels per second): a resize-right pointer move with no
  horizontal displacement on a cue of start 6 and duration 1 sets the duration to 6, where the
  claim's formula gives 1; a resize-left pointer move of 80 pixels on a cue of start 6 and
  duration 8 sets start 12 and duration 2, where the claim's formulas give 7 and 7.
\<close>

theorem resize_drag_adds_pan_offset:
  "handleZoomIn view_fit = view_zoomed
   \<and> handleMouseMove view_zoomed (handleCueMouseDown 100 cue_d resize_right) [cue_d] 100
       = Some (''d'', no_updates\<lparr>upd_duration := Some 6\<rparr>)
   \<and> cues (dragMouseMove view_zoomed (handleCueMouseDown 100 cue_d resize_right) 100
              \<lparr>cues = [cue_d], selectedCue = None, selectionState = no_selection\<rparr>)
       = [cue_d\<lparr>duration := 6\<rparr>]
   \<and> max 0.1 (duration cue_d + (100 - 100) * visibleDuration view_zoomed / 800) = 1
   \<and> handleMouseMove view_zoomed (handleCueMouseDown 100 cue_e resize_left) [cue_e] 180
       = Some (''e'', no_updates\<lparr>upd_startTime := Some 12, upd_duration := Some 2\<rparr>)
   \<and> cues (dragMouseMove view_zoomed (handleCueMouseDown 100 cue_e resize_left) 180
              \<lparr>cues = [cue_e], selectedCue = None, selectionState = no_selection\<rparr>)
       = [cue_e\<lparr>startTime := 12, duration := 2\<rparr>]
   \<and> max 0 (startTime cue_e + (180 - 100) * visibleDuration view_zoomed / 800) = 7
   \<and> duration cue_e
         - (max 0 (startTime cue_e + (180 - 100) * visibleDuration view_zoomed / 800)
            - startTime cue_e) = 7"
proof -
  have z: "handleZoomIn view_fit = view_zoomed"
    by (simp add: handleZoomIn_def view_fit_def view_zoomed_def visibleDuration_def Let_def)
  have p2t: "pixelToTime view_zoomed x = 5 + x / 80" for x
    by (simp add: pixelToTime_def view_zoomed_def visibleDuration_def)
  have vd: "visibleDuration view_zoomed = 10" "totalDuration view_zoomed = 20"
    by (simp_all add: view_zoomed_def visibleDuration_def)
  have dr: "drag_type (handleCueMouseDown 100 cue_d resize_right) = resize_right"
    and dl: "drag_type (handleCueMouseDown 100 cue_e resize_left) = resize_left"
    by (simp_all add: handleCueMouseDown_def)
  have ds: "drag_cueId (handleCueMouseDown 100 cue_d resize_right) = ''d''"
           "drag_startX (handleCueMouseDown 100 cue_d resize_right) = 100"
           "drag_startTime (handleCueMouseDown 100 cue_d resize_right) = 6"
           "drag_startDuration (handleCueMouseDown 100 cue_d resize_right) = 1"
           "drag_cueId (handleCueMouseDown 100 cue_e resize_left) = ''e''"
           "drag_startX (handleCueMouseDown 100 cue_e resize_left) = 100"
           "drag_startTime (handleCueMouseDown 100 cue_e resize_left) = 6"
           "drag_startDuration (handleCueMouseDown 100 cue_e resize_left) = 8"
    by (simp_all add: handleCueMouseDown_def cue_d_def cue_e_def)
  have ids: "cue_id cue_d = ''d''" "cue_id cue_e = ''e''"
    by (simp_all add: cue_d_def cue_e_def)
  have r: "handleMouseMove view_zoomed (handleCueMouseDown 100 cue_d resize_right) [cue_d] 100
             = Some (''d'', no_updates\<lparr>upd_duration := Some 6\<rparr>)"
    by (simp add: handleMouseMove_resize_right [OF dr] ds p2t vd ids)
  have l: "handleMouseMove view_zoomed (handleCueMouseDown 100 cue_e resize_left) [cue_e] 180
             = Some (''e'', no_updates\<lparr>upd_startTime := Some 12, upd_duration := Some 2\<rparr>)"
    by (simp add: handleMouseMove_resize_left [OF dl] ds p2t vd ids)
  have er: "cues (dragMouseMove view_zoomed (handleCueMouseDown 100 cue_d resize_right) 100
              \<lparr>cues = [cue_d], selectedCue = None, selectionState = no_selection\<rparr>)
             = [cue_d\<lparr>duration := 6\<rparr>]"
    by (simp add: dragMouseMove_def r deliver_def handleUpdateCue_def spread_duration_only ids)
  have el: "cues (dragMouseMove view_zoomed (handleCueMouseDown 100 cue_e resize_left) 180
              \<lparr>cues = [cue_e], selectedCue = None, selectionState = no_selection\<rparr>)
             = [cue_e\<lparr>startTime := 12, duration := 2\<rparr>]"
    by (simp add: dragMouseMove_def l deliver_def handleUpdateCue_def spread_resize_left ids)
  have cr: "max 0.1 (duration cue_d + (100 - 100) * visibleDuration view_zoomed / 800) = 1"
    by (simp add: cue_d_def)
  have cl: "max 0 (startTime cue_e + (180 - 100) * visibleDuration view_zoomed / 800) = 7"
    by (simp add: cue_e_def vd)
  have cl': "duration cue_e
         - (max 0 (startTime cue_e + (180 - 100) * visibleDuration view_zoomed / 800)
            - startTime cue_e) = 7"
    unfolding cl by (simp add: cue_e_def)
  show ?thesis by (intro conjI) (rule z r er cr l el cl cl')+
qed

subsection \<open>The update operation\<close>

text \<open>
  Claim C5 as stated fails: \<open>handleUpdateCue\<close> applies a patch with a negative start time and
  a negative duration as it is given.
\<close>

theorem handleUpdateCue_no_validation:
  "startTime cue_a \<ge> 0 \<and> duration cue_a > 0
   \<and> cues (handleUpdateCue editor_abc ''a''
             (no_updates\<lparr>upd_startTime := Some (- 3), upd_duration := Some (- 1)\<rparr>))
       = [cue_a\<lparr>startTime := - 3, duration := - 1\<rparr>, cue_b, cue_c]
   \<and> duration (cues (handleUpdateCue editor_abc ''a''
             (no_updates\<lparr>upd_startTime := Some (- 3), upd_duration := Some (- 1)\<rparr>)) ! 0) \<le> 0
   \<and> startTime (cues (handleUpdateCue editor_abc ''a''
             (no_updates\<lparr>upd_startTime := Some (- 3), upd_duration := Some (- 1)\<rparr>)) ! 0) < 0"
  by (simp add: handleUpdateCue_def spread_resize_left editor_abc_def)
     (simp add: cue_a_def cue_b_def cue_c_def)

lemma handleMouseMove_safe:
  assumes "handleMouseMove tln ds cs x = Some (cid, p)"
  shows "(\<forall>d. upd_duration p = Some d \<longrightarrow> d > 0) \<and> (\<forall>s. upd_startTime p = Some s \<longrightarrow> s \<ge> 0)"
proof (cases "drag_type ds")
  case move
  from assms show ?thesis
    unfolding handleMouseMove_move [OF move]
    by (auto simp add: Let_def no_updates_def split: if_splits)
next
  case resize_left
  from assms show ?thesis
    unfolding handleMouseMove_resize_left [OF resize_left]
    by (auto simp add: Let_def no_updates_def split: if_splits)
next
  case resize_right
  from assms show ?thesis
    unfolding handleMouseMove_resize_right [OF resize_right]
    by (auto simp add: Let_def no_updates_def split: if_splits)
qed

lemma param_patch_safe:
  "upd_duration (no_updates\<lparr>upd_intensity := a\<rparr>) = None"
  "upd_startTime (no_updates\<lparr>upd_intensity := a\<rparr>) = None"
  "upd_duration (no_updates\<lparr>upd_sharpness := a\<rparr>) = None"
  "upd_startTime (no_updates\<lparr>upd_sharpness := a\<rparr>) = None"
  "upd_duration (no_updates\<lparr>upd_intensity_start := a\<rparr>) = None"
  "upd_startTime (no_updates\<lparr>upd_intensity_start := a\<rparr>) = None"
  "upd_duration (no_updates\<lparr>upd_intensity_end := a\<rparr>) = None"
  "upd_startTime (no_updates\<lparr>upd_intensity_end := a\<rparr>) = None"
  "upd_duration (no_updates\<lparr>upd_sharpness_start := a\<rparr>) = None"
  "upd_startTime (no_updates\<lparr>upd_sharpness_start := a\<rparr>) = None"
  "upd_duration (no_updates\<lparr>upd_sharpness_end := a\<rparr>) = None"
  "upd_startTime (no_updates\<lparr>upd_sharpness_end := a\<rparr>) = None"
  by (simp_all add: no_updates_def)

lemma panelCall_safe:
  assumes "panelCall cue ev = Some (cid, p)"
  shows "(\<forall>d. upd_duration p = Some d \<longrightarrow> d > 0) \<and> (\<forall>s. upd_startTime p = Some s \<longrightarrow> s \<ge> 0)"
proof (cases ev)
  case (CueDragMove tln ds x)
  with assms show ?thesis by (simp add: panelCall_def)
next
  case (DurationInput parsed)
  with assms show ?thesis
    by (auto simp add: panelCall_def handleDurationChange_def no_updates_def
          split: option.splits if_splits)
next
  case (SliderChange f v)
  with assms show ?thesis
    by (cases f)
       (auto simp add: panelCall_def handleIntensityChange_def
          handleSharpnessChange_def handleIntensityStartChange_def handleIntensityEndChange_def
          handleSharpnessStartChange_def handleSharpnessEndChange_def param_patch_safe
          split: if_splits)
next
  case (ResetClick f)
  with assms show ?thesis
    by (cases f) (auto simp add: panelCall_def resetButton_def param_patch_safe split: if_splits)
qed

lemma surfaceCall_panel:
  "surfaceCall ed (DurationInput parsed)
     = (case selectedCue ed of None \<Rightarrow> None | Some cue \<Rightarrow> panelCall cue (DurationInput parsed))"
  "surfaceCall ed (SliderChange f v)
     = (case selectedCue ed of None \<Rightarrow> None | Some cue \<Rightarrow> panelCall cue (SliderChange f v))"
  "surfaceCall ed (ResetClick f)
     = (case selectedCue ed of None \<Rightarrow> None | Some cue \<Rightarrow> panelCall cue (ResetClick f))"
  "surfaceCall ed (CueDragMove tln ds x) = handleMouseMove tln ds (cues ed) x"
  by (simp_all add: surfaceCall_def)

lemma surfaceCall_safe:
  assumes "surfaceCall ed ev = Some (cid, p)"
  shows "(\<forall>d. upd_duration p = Some d \<longrightarrow> d > 0) \<and> (\<forall>s. upd_startTime p = Some s \<longrightarrow> s \<ge> 0)"
proof (cases ev)
  case (CueDragMove tln ds x)
  with assms have "handleMouseMove tln ds (cues ed) x = Some (cid, p)"
    by (simp add: surfaceCall_panel)
  then show ?thesis by (rule handleMouseMove_safe)
next
  case (DurationInput parsed)
  with assms obtain cue where "panelCall cue ev = Some (cid, p)"
    by (cases "selectedCue ed") (simp_all add: surfaceCall_panel)
  then show ?thesis by (rule panelCall_safe)
next
  case (SliderChange f v)
  with assms obtain cue where "panelCall cue ev = Some (cid, p)"
    by (cases "selectedCue ed") (simp_all add: surfaceCall_panel)
  then show ?thesis by (rule panelCall_safe)
next
  case (ResetClick f)
  with assms obtain cue where "panelCall cue ev = Some (cid, p)"
    by (cases "selectedCue ed") (simp_all add: surfaceCall_panel)
  then show ?thesis by (rule panelCall_safe)
qed

lemma spread_times:
  "duration (spread c p) = override (duration c) (upd_duration p)"
  "startTime (spread c p) = override (startTime c) (upd_startTime p)"
  by (simp_all add: spread_def)

lemma spread_valid:
  assumes "duration c > 0 \<and> startTime c \<ge> 0"
    and "\<forall>d. upd_duration p = Some d \<longrightarrow> d > 0" and "\<forall>s. upd_startTime p = Some s \<longrightarrow> s \<ge> 0"
  shows "duration (spread c p) > 0 \<and> startTime (spread c p) \<ge> 0"
  using assms by (auto simp add: spread_times override_def split: option.splits)

lemma deliver_valid:
  assumes inv: "\<forall>c \<in> set (cues ed). duration c > 0 \<and> startTime c \<ge> 0"
    and safe: "\<And>cid p. call = Some (cid, p) \<Longrightarrow>
       (\<forall>d. upd_duration p = Some d \<longrightarrow> d > 0) \<and> (\<forall>s. upd_startTime p = Some s \<longrightarrow> s \<ge> 0)"
  shows "\<forall>c \<in> set (cues (deliver ed call)). duration c > 0 \<and> startTime c \<ge> 0"
proof (cases call)
  case None
  with inv show ?thesis by (simp add: deliver_def)
next
  case (Some a)
  obtain cid p where a: "a = (cid, p)" by (cases a)
  from safe [of cid p] Some a
  have s: "\<forall>d. upd_duration p = Some d \<longrightarrow> d > 0" "\<forall>s. upd_startTime p = Some s \<longrightarrow> s \<ge> 0"
    by simp_all
  have m: "cues (deliver ed call)
             = map (\<lambda>c. if cue_id c = cid then spread c p else c) (cues ed)"
    by (simp add: Some a deliver_def handleUpdateCue_def)
  show ?thesis
  proof
    fix c assume "c \<in> set (cues (deliver ed call))"
    then obtain c0 where c0: "c0 \<in> set (cues ed)"
      and c: "c = (if cue_id c0 = cid then spread c0 p else c0)"
      unfolding m by auto
    from inv c0 have v: "duration c0 > 0 \<and> startTime c0 \<ge> 0" by simp
    show "duration c > 0 \<and> startTime c \<ge> 0"
    proof (cases "cue_id c0 = cid")
      case True
      with c have "c = spread c0 p" by simp
      with spread_valid [OF v s] show ?thesis by simp
    next
      case False
      with c v show ?thesis by simp
    qed
  qed
qed

lemma runEvents_valid:
  "\<forall>c \<in> set (cues ed). duration c > 0 \<and> startTime c \<ge> 0 \<Longrightarrow>
   \<forall>c \<in> set (cues (runEvents ed evs)). duration c > 0 \<and> startTime c \<ge> 0"
proof (induction evs arbitrary: ed)
  case Nil
  then show ?case by simp
next
  case (Cons ev evs)
  have step: "\<forall>c \<in> set (cues (deliver ed (surfaceCall ed ev))).
                duration c > 0 \<and> startTime c \<ge> 0"
  proof (rule deliver_valid [OF Cons.prems])
    fix cid p assume "surfaceCall ed ev = Some (cid, p)"
    then show "(\<forall>d. upd_duration p = Some d \<longrightarrow> d > 0)
             \<and> (\<forall>s. upd_startTime p = Some s \<longrightarrow> s \<ge> 0)"
      by (rule surfaceCall_safe)
  qed
  from Cons.IH [OF step] show ?case by simp
qed

text \<open>
  Claim C5, amended. The update operation applies every patch as it is given: the patched
  cues are the spread of the patch over the old fields, so a duration or start time named by
  the patch is taken as it is. The guard and the clamps are at the callers: every update call
  made by an editing surface (the duration input, the sliders and reset buttons, and the three
  drag modes) carries a patch whose duration, if any, is positive and whose start time, if
  any, is not negative. Consequently, when every cue has \<open>duration > 0\<close> and \<open>startTime \<ge> 0\<close>,
  every cue still has after any sequence of events of the editing surfaces.
\<close>

theorem surface_updates_keep_cues_valid:
  fixes ed :: Editor
  shows "(\<forall>c \<in> set (cues ed). cue_id c = cid \<longrightarrow>
            duration (spread c p) = (case upd_duration p of None \<Rightarrow> duration c | Some d \<Rightarrow> d)
          \<and> startTime (spread c p) = (case upd_startTime p of None \<Rightarrow> startTime c | Some s \<Rightarrow> s))
       \<and> cues (handleUpdateCue ed cid p)
           = map (\<lambda>c. if cue_id c = cid then spread c p else c) (cues ed)
       \<and> (\<forall>ev cid' p'. surfaceCall ed ev = Some (cid', p') \<longrightarrow>
             (\<forall>d. upd_duration p' = Some d \<longrightarrow> d > 0)
           \<and> (\<forall>s. upd_startTime p' = Some s \<longrightarrow> s \<ge> 0))
       \<and> ((\<forall>c \<in> set (cues ed). duration c > 0 \<and> startTime c \<ge> 0) \<longrightarrow>
            (\<forall>c \<in> set (cues (runEvents ed evs)). duration c > 0 \<and> startTime c \<ge> 0))"
proof -
  have a: "\<forall>c \<in> set (cues ed). cue_id c = cid \<longrightarrow>
            duration (spread c p) = (case upd_duration p of None \<Rightarrow> duration c | Some d \<Rightarrow> d)
          \<and> startTime (spread c p) = (case upd_startTime p of None \<Rightarrow> startTime c | Some s \<Rightarrow> s)"
    by (simp add: spread_times override_def)
  have b: "cues (handleUpdateCue ed cid p)
           = map (\<lambda>c. if cue_id c = cid then spread c p else c) (cues ed)"
    by (simp add: handleUpdateCue_def)
  have c: "\<forall>ev cid' p'. surfaceCall ed ev = Some (cid', p') \<longrightarrow>
             (\<forall>d. upd_duration p' = Some d \<longrightarrow> d > 0)
           \<and> (\<forall>s. upd_startTime p' = Some s \<longrightarrow> s \<ge> 0)"
    by (intro allI impI) (rule surfaceCall_safe)
  have d: "(\<forall>c \<in> set (cues ed). duration c > 0 \<and> startTime c \<ge> 0) \<longrightarrow>
            (\<forall>c \<in> set (cues (runEvents ed evs)). duration c > 0 \<and> startTime c \<ge> 0)"
    by (intro impI) (rule runEvents_valid)
  show ?thesis by (intro conjI) (rule a b c d)+
qed

theorem surface_updates_keep_cues_valid_witness:
  "list_all (\<lambda>c. duration c > 0 \<and> startTime c \<ge> 0) (cues editor_b_selected)
   \<and> surfaceCall editor_b_selected (DurationInput (Some (- 1))) = None
   \<and> surfaceCall editor_b_selected (DurationInput (Some 2))
       = Some (''b'', no_updates\<lparr>upd_duration := Some 2\<rparr>)
   \<and> cues (runEvents editor_b_selected
              [DurationInput (Some (- 1)), DurationInput (Some 2),
               CueDragMove view_fit (handleCueMouseDown 100 cue_a move) (- 500)])
       = [cue_a, cue_b\<lparr>duration := 2\<rparr>, cue_c]
   \<and> list_all (\<lambda>c. duration c > 0 \<and> startTime c \<ge> 0)
        (cues (runEvents editor_b_selected
              [DurationInput (Some (- 1)), DurationInput (Some 2),
               CueDragMove view_fit (handleCueMouseDown 100 cue_a move) (- 500)]))"
proof -
  let ?evs = "[DurationInput (Some (- 1)), DurationInput (Some 2),
               CueDragMove view_fit (handleCueMouseDown 100 cue_a move) (- 500)]"
  have ids: "cue_id cue_a = ''a''" "cue_id cue_b = ''b''" "cue_id cue_c = ''c''"
    by (simp_all add: cue_a_def cue_b_def cue_c_def)
  have v0: "\<forall>c \<in> set (cues editor_b_selected). duration c > 0 \<and> startTime c \<ge> 0"
    by (simp add: editor_b_selected_def editor_abc_def cue_a_def cue_b_def cue_c_def)
  have s1: "surfaceCall editor_b_selected (DurationInput (Some (- 1))) = None"
    by (simp add: surfaceCall_panel editor_b_selected_def panelCall_def handleDurationChange_def)
  have s2: "surfaceCall editor_b_selected (DurationInput (Some 2))
              = Some (''b'', no_updates\<lparr>upd_duration := Some 2\<rparr>)"
    by (simp add: surfaceCall_panel editor_b_selected_def panelCall_def handleDurationChange_def
          ids)
  let ?ed2 = "handleUpdateCue editor_b_selected ''b'' (no_updates\<lparr>upd_duration := Some 2\<rparr>)"
  have ed2: "cues ?ed2 = [cue_a, cue_b\<lparr>duration := 2\<rparr>, cue_c]"
    by (simp add: handleUpdateCue_def editor_b_selected_def editor_abc_def ids
          spread_duration_only)
  have dm: "drag_type (handleCueMouseDown 100 cue_a move) = move"
    by (simp add: handleCueMouseDown_def)
  have s3: "surfaceCall ?ed2 (CueDragMove view_fit (handleCueMouseDown 100 cue_a move) (- 500))
              = Some (''a'', no_updates\<lparr>upd_startTime := Some 0\<rparr>)"
    unfolding surfaceCall_panel handleMouseMove_move [OF dm] ed2
    by (simp add: handleCueMouseDown_def ids pixelToTime_def view_fit_def visibleDuration_def
          cue_a_def)
  have a0: "cue_a\<lparr>startTime := 0\<rparr> = cue_a" by (simp add: cue_a_def)
  have r: "cues (runEvents editor_b_selected ?evs) = [cue_a, cue_b\<lparr>duration := 2\<rparr>, cue_c]"
    by (simp add: s1 s2 s3 deliver_def)
       (simp add: handleUpdateCue_def ed2 [unfolded handleUpdateCue_def, simplified]
          spread_startTime_only ids a0)
  from surface_updates_keep_cues_valid [of editor_b_selected "''b''" "no_updates" ?evs] v0
  have v: "\<forall>c \<in> set (cues (runEvents editor_b_selected ?evs)).
             duration c > 0 \<and> startTime c \<ge> 0"
    by blast
  from v0 s1 s2 r v show ?thesis unfolding list_all_iff by blast
qed

subsection \<open>Waveform synthesis\<close>

lemma point_x:
  "pt_x (rumblePoint rnd cue w h n f i) = (real i / (real_of_int n - 1)) * w"
  "pt_x (impactPoint cue w h n k i) = (real i / (real_of_int n - 1)) * w"
  "pt_x (heartbeatPoint cue w h n b i) = (real i / (real_of_int n - 1)) * w"
  "pt_x (pulsePoint cue w h n i) = (real i / (real_of_int n - 1)) * w"
  "pt_x (explosionPoint cue w h n i) = (real i / (real_of_int n - 1)) * w"
  "pt_x (rampPoint cue w h n i) = (real i / (real_of_int n - 1)) * w"
  by (simp_all add: rumblePoint_def impactPoint_def heartbeatPoint_def pulsePoint_def
        explosionPoint_def rampPoint_def Let_def)

lemma generateWaveformData_xs:
  "map pt_x (points (generateWaveformData rnd cue w h z))
     = map (\<lambda>i. (real i / (real_of_int (sampleCountOf cue z) - 1)) * w)
           [0..<nat (sampleCountOf cue z)]"
  by (cases "cue_type cue")
     (simp_all add: generateWaveformData_def Let_def generateAccurateRumbleWave_def
        generateAccurateImpactWave_def generateAccurateHeartbeatWave_def
        generateAccuratePulseWave_def generateAccurateExplosionWave_def
        generateAccurateRampWave_def point_x o_def)

lemma sampleCountOf_range: "32 \<le> sampleCountOf cue z" "sampleCountOf cue z \<le> 512"
  by (simp_all add: sampleCountOf_def Let_def)

lemma generateWaveformData_length:
  "length (points (generateWaveformData rnd cue w h z)) = nat (sampleCountOf cue z)"
proof -
  have "length (map pt_x (points (generateWaveformData rnd cue w h z)))
          = nat (sampleCountOf cue z)"
    unfolding generateWaveformData_xs by simp
  then show ?thesis by simp
qed

text \<open>
  Claim C1. For every cue and all positive width, height and zoom level, the point sequence of
  \<open>generateWaveformData\<close> has length \<open>max 32 (min 512 \<lfloor>duration * 60 * sqrt zoomLevel\<rfloor>)\<close>, hence
  between 32 and 512; its x coordinates are non-decreasing, the first is 0 and the last is the
  width.
\<close>

theorem generateWaveformData_points:
  fixes rnd :: "nat \<Rightarrow> real" and cue :: HapticCue and width height zoom :: real
  defines "pts \<equiv> points (generateWaveformData rnd cue width height zoom)"
  assumes "width > 0" and "height > 0" and "zoom > 0"
  shows "length pts = nat (max 32 (min 512 \<lfloor>duration cue * 60 * sqrt zoom\<rfloor>))
       \<and> 32 \<le> length pts \<and> length pts \<le> 512
       \<and> sorted (map pt_x pts)
       \<and> pt_x (hd pts) = 0
       \<and> pt_x (last pts) = width"
proof -
  let ?n = "sampleCountOf cue zoom"
  let ?f = "\<lambda>i. (real i / (real_of_int ?n - 1)) * width"
  have n: "32 \<le> ?n" "?n \<le> 512" by (rule sampleCountOf_range)+
  have xs: "map pt_x pts = map ?f [0..<nat ?n]"
    unfolding pts_def by (rule generateWaveformData_xs)
  have len: "length pts = nat ?n"
    unfolding pts_def by (rule generateWaveformData_length)
  have len': "length pts = nat (max 32 (min 512 \<lfloor>duration cue * 60 * sqrt zoom\<rfloor>))"
    unfolding len by (simp add: sampleCountOf_def Let_def)
  have bounds: "32 \<le> length pts" "length pts \<le> 512"
    using n unfolding len by simp_all
  have ne: "pts \<noteq> []" using bounds by auto
  have d: "real_of_int ?n - 1 > 0" using n by simp
  have mono: "?f i \<le> ?f j" if "i \<le> j" for i j
  proof -
    from that d have "real i / (real_of_int ?n - 1) \<le> real j / (real_of_int ?n - 1)"
      by (simp add: divide_right_mono)
    then show ?thesis using \<open>width > 0\<close> by (intro mult_right_mono) simp_all
  qed
  have mono': "real i * width / (real_of_int ?n - 1) \<le> real j * width / (real_of_int ?n - 1)"
    if "i \<le> j" for i j
    using mono [OF that] by simp
  have srt: "sorted (map pt_x pts)"
    unfolding xs by (auto simp add: sorted_iff_nth_mono intro: mono')
  have "pt_x (hd pts) = hd (map pt_x pts)" using ne by (simp add: hd_map)
  also have "\<dots> = ?f 0" unfolding xs using n by (simp add: hd_map upt_conv_Cons)
  finally have first: "pt_x (hd pts) = 0" by simp
  have "pt_x (last pts) = last (map pt_x pts)" using ne by (simp add: last_map)
  also have "\<dots> = ?f (nat ?n - 1)"
    unfolding xs using n by (simp add: last_map last_upt)
  also have "\<dots> = width"
  proof -
    from n have "real (nat ?n - 1) = real_of_int ?n - 1" by simp
    with d show ?thesis by simp
  qed
  finally have last: "pt_x (last pts) = width" .
  from len' bounds srt first last show ?thesis by blast
qed

theorem generateWaveformData_points_witness:
  "(100::real) > 0 \<and> (32::real) > 0 \<and> (1::real) > 0
   \<and> length (points (generateWaveformData (\<lambda>i. 0) cue_d 100 32 1)) = 60
   \<and> sorted (map pt_x (points (generateWaveformData (\<lambda>i. 0) cue_d 100 32 1)))
   \<and> pt_x (hd (points (generateWaveformData (\<lambda>i. 0) cue_d 100 32 1))) = 0
   \<and> pt_x (last (points (generateWaveformData (\<lambda>i. 0) cue_d 100 32 1))) = 100"
proof -
  have h: "(100::real) > 0" "(32::real) > 0" "(1::real) > 0" by simp_all
  have n: "nat (max 32 (min 512 \<lfloor>duration cue_d * 60 * sqrt 1\<rfloor>)) = 60"
    by (simp add: cue_d_def)
  from generateWaveformData_points [OF h, of "\<lambda>i. 0" cue_d] n h show ?thesis by simp
qed

lemma generateWaveformData_nth:
  assumes "i < nat (sampleCountOf cue z)"
  shows "points (generateWaveformData rnd cue w h z) ! i =
     (let n = sampleCountOf cue z in
      case cue_type cue of
        rumble_low \<Rightarrow> rumblePoint rnd cue w h n 2.0 i
      | rumble_high \<Rightarrow> rumblePoint rnd cue w h n 8.0 i
      | kick_soft \<Rightarrow> impactPoint cue w h n soft i
      | kick_hard \<Rightarrow> impactPoint cue w h n hard i
      | heartbeat_slow \<Rightarrow> heartbeatPoint cue w h n 1.2 i
      | heartbeat_fast \<Rightarrow> heartbeatPoint cue w h n 0.6 i
      | pulse \<Rightarrow> pulsePoint cue w h n i
      | explosion \<Rightarrow> explosionPoint cue w h n i
      | ramp_up \<Rightarrow> rampPoint cue w h n i
      | ramp_down \<Rightarrow> rampPoint cue w h n i)"
  using assms
  by (cases "cue_type cue")
     (simp_all add: generateWaveformData_def Let_def generateAccurateRumbleWave_def
        generateAccurateImpactWave_def generateAccurateHeartbeatWave_def
        generateAccuratePulseWave_def generateAccurateExplosionWave_def
        generateAccurateRampWave_def)

lemma generateWaveformData_no_rnd:
  assumes "cue_type cue \<noteq> rumble_low" and "cue_type cue \<noteq> rumble_high"
  shows "generateWaveformData rnd1 cue w h z = generateWaveformData rnd2 cue w h z"
  using assms by (cases "cue_type cue") (simp_all add: generateWaveformData_def Let_def)

lemma rumblePoint_y_diff:
  "pt_y (rumblePoint rnd1 cue w h n f i) - pt_y (rumblePoint rnd2 cue w h n f i)
     = (rnd2 i - rnd1 i) * 0.05 * cueIntensity cue * (cueIntensity cue * (h * 0.4))"
  by (simp add: rumblePoint_def Let_def field_simps)

lemma rumble_depends_on_rnd:
  assumes t: "cue_type cue = rumble_low \<or> cue_type cue = rumble_high"
    and nz: "cueIntensity cue \<noteq> 0" "h \<noteq> 0" and r: "rnd1 0 \<noteq> rnd2 0"
  shows "generateWaveformData rnd1 cue w h z \<noteq> generateWaveformData rnd2 cue w h z"
proof
  assume eq: "generateWaveformData rnd1 cue w h z = generateWaveformData rnd2 cue w h z"
  have pos: "0 < nat (sampleCountOf cue z)" using sampleCountOf_range(1) [of cue z] by simp
  from eq have "points (generateWaveformData rnd1 cue w h z) ! 0
                 = points (generateWaveformData rnd2 cue w h z) ! 0" by simp
  then obtain f where "rumblePoint rnd1 cue w h (sampleCountOf cue z) f 0
                     = rumblePoint rnd2 cue w h (sampleCountOf cue z) f 0"
    using t unfolding generateWaveformData_nth [OF pos] by (auto simp add: Let_def)
  then have "pt_y (rumblePoint rnd1 cue w h (sampleCountOf cue z) f 0)
               - pt_y (rumblePoint rnd2 cue w h (sampleCountOf cue z) f 0) = 0" by simp
  then have "(rnd2 0 - rnd1 0) * 0.05 * cueIntensity cue * (cueIntensity cue * (h * 0.4)) = 0"
    unfolding rumblePoint_y_diff .
  with nz r show False by simp
qed

text \<open>
  Claim C8. With \<^verbatim>\<open>Math.random\<close> as the only source of values outside the arguments: for
  a cue whose kind is neither \<open>rumble_low\<close> nor \<open>rumble_high\<close>, \<open>generateWaveformData\<close> returns
  the same data whatever the random draws are, so two calls with equal cue, width, height and
  zoom return identical point sequences. Only the rumble generator reads the draws: for a
  rumble cue of non-zero intensity and a non-zero height, two calls whose first draws differ
  return different data.
\<close>

theorem generateWaveformData_deterministic:
  "(cue_type cue \<noteq> rumble_low \<and> cue_type cue \<noteq> rumble_high \<longrightarrow>
      generateWaveformData rnd1 cue w h z = generateWaveformData rnd2 cue w h z)
   \<and> ((cue_type cue = rumble_low \<or> cue_type cue = rumble_high)
        \<and> cueIntensity cue \<noteq> 0 \<and> h \<noteq> 0 \<and> rnd1 0 \<noteq> rnd2 0 \<longrightarrow>
      generateWaveformData rnd1 cue w h z \<noteq> generateWaveformData rnd2 cue w h z)"
  using generateWaveformData_no_rnd [of cue rnd1 w h z rnd2]
        rumble_depends_on_rnd [of cue h rnd1 rnd2 w z]
  by blast

theorem generateWaveformData_deterministic_witness:
  "cue_type cue_a \<noteq> rumble_low \<and> cue_type cue_a \<noteq> rumble_high
   \<and> generateWaveformData (\<lambda>i. 0) cue_a 100 32 1 = generateWaveformData (\<lambda>i. 1 / 2) cue_a 100 32 1
   \<and> cue_type cue_d = rumble_low \<and> cueIntensity cue_d \<noteq> 0
   \<and> generateWaveformData (\<lambda>i. 0) cue_d 100 32 1 \<noteq> generateWaveformData (\<lambda>i. 1 / 2) cue_d 100 32 1"
proof -
  have a: "cue_type cue_a \<noteq> rumble_low \<and> cue_type cue_a \<noteq> rumble_high"
    by (simp add: cue_a_def)
  have d: "cue_type cue_d = rumble_low" "cueIntensity cue_d \<noteq> 0"
    by (simp_all add: cue_d_def cueIntensity_def isStaticCue_def isRampCue_def)
  have r: "(\<lambda>i::nat. 0::real) 0 \<noteq> (\<lambda>i. 1 / 2) 0" by simp
  from generateWaveformData_deterministic [of cue_a "\<lambda>i. 0" 100 32 1 "\<lambda>i. 1 / 2"] a
  have e: "generateWaveformData (\<lambda>i. 0) cue_a 100 32 1
             = generateWaveformData (\<lambda>i. 1 / 2) cue_a 100 32 1" by blast
  from generateWaveformData_deterministic [of cue_d "\<lambda>i. 0" 100 32 1 "\<lambda>i. 1 / 2"] d r
  have n: "generateWaveformData (\<lambda>i. 0) cue_d 100 32 1
             \<noteq> generateWaveformData (\<lambda>i. 1 / 2) cue_d 100 32 1" by simp
  from a d e n show ?thesis by blast
qed

lemma pulse_cueIntensity:
  "cue_type cue = pulse \<Longrightarrow> cueIntensity cue = intensity (props cue)"
  by (simp add: cueIntensity_def isStaticCue_def isRampCue_def)

lemma pulsePoint_off:
  assumes "\<not> pulsePhaseAt cue n i < dutyCycleOf cue"
  shows "pt_y (pulsePoint cue w h n i) = h / 2 - cueIntensity cue * (h * 0.4) * 0.05"
  using assms by (simp add: pulsePoint_def Let_def)

text \<open>
  Claim C9. For a pulse cue, every sample in the OFF phase of its duty cycle (the test
  \<^verbatim>\<open>pulsePhase < dutyCycle\<close> fails) has \<open>y = centerY - 0.05 * amplitude\<close> with
  \<open>amplitude = intensity * 0.4 * height\<close>; so for a positive intensity (and a positive height)
  the curve is strictly above the centre line there, by 5% of the amplitude.
\<close>

theorem pulse_off_phase_baseline:
  fixes rnd :: "nat \<Rightarrow> real" and cue :: HapticCue and width height zoom :: real and i :: nat
  defines "pts \<equiv> points (generateWaveformData rnd cue width height zoom)"
  defines "centerY \<equiv> height / 2"
  defines "amplitude \<equiv> intensity (props cue) * 0.4 * height"
  assumes "cue_type cue = pulse"
    and "i < length pts"
    and "\<not> pulsePhaseAt cue (sampleCountOf cue zoom) i < dutyCycleOf cue"
  shows "pt_y (pts ! i) = centerY - 0.05 * amplitude
       \<and> (intensity (props cue) > 0 \<and> height > 0 \<longrightarrow>
            pt_y (pts ! i) < centerY \<and> centerY - pt_y (pts ! i) = 0.05 * amplitude
            \<and> 0.05 * amplitude > 0)"
proof -
  from assms(5) have i: "i < nat (sampleCountOf cue zoom)"
    unfolding pts_def generateWaveformData_length .
  have y: "pt_y (pts ! i) = centerY - 0.05 * amplitude"
    unfolding pts_def generateWaveformData_nth [OF i]
    using assms(4,6)
    by (simp add: Let_def pulsePoint_off pulse_cueIntensity centerY_def amplitude_def)
  have "0.05 * amplitude > 0" if "intensity (props cue) > 0" "height > 0"
    using that by (simp add: amplitude_def)
  with y show ?thesis by simp
qed

theorem pulse_off_phase_baseline_witness:
  "cue_type cue_b = pulse
   \<and> 6 < length (points (generateWaveformData (\<lambda>i. 0) cue_b 100 32 1))
   \<and> \<not> pulsePhaseAt cue_b (sampleCountOf cue_b 1) 6 < dutyCycleOf cue_b
   \<and> intensity (props cue_b) > 0 \<and> (32::real) > 0
   \<and> pt_y (points (generateWaveformData (\<lambda>i. 0) cue_b 100 32 1) ! 6) = 16 - 0.512
   \<and> pt_y (points (generateWaveformData (\<lambda>i. 0) cue_b 100 32 1) ! 6) < 16"
proof -
  have t: "cue_type cue_b = pulse" by (simp add: cue_b_def)
  have n: "sampleCountOf cue_b 1 = 60" by (simp add: sampleCountOf_def cue_b_def)
  have l: "6 < length (points (generateWaveformData (\<lambda>i. 0) cue_b 100 32 1))"
    by (simp add: generateWaveformData_length n)
  have s: "cueSharpness cue_b = 1 / 2"
    by (simp add: cueSharpness_def isStaticCue_def isRampCue_def cue_b_def)
  have ph: "pulsePhaseAt cue_b 60 6 = 30 / 59"
    by (simp add: pulsePhaseAt_def Let_def s js_rem_def) (simp add: cue_b_def)
  have off: "\<not> pulsePhaseAt cue_b (sampleCountOf cue_b 1) 6 < dutyCycleOf cue_b"
    unfolding n ph by (simp add: dutyCycleOf_def s)
  have i: "intensity (props cue_b) > 0" "intensity (props cue_b) = 4 / 5"
    by (simp_all add: cue_b_def)
  from pulse_off_phase_baseline [OF t l off] i
  have "pt_y (points (generateWaveformData (\<lambda>i. 0) cue_b 100 32 1) ! 6) = 16 - 0.512"
    and "pt_y (points (generateWaveformData (\<lambda>i. 0) cue_b 100 32 1) ! 6) < 16"
    by simp_all
  with t l off i show ?thesis by simp
qed

lemma sqrt_three_quarters: "sqrt (3 / 4) \<noteq> 1 / 2"
proof
  assume a: "sqrt (3 / 4) = 1 / 2"
  have "(3 / 4 :: real) = (sqrt (3 / 4))\<^sup>2" by simp
  also have "\<dots> = (1 / 2)\<^sup>2" unfolding a ..
  finally show False by (simp add: power2_eq_square)
qed

lemma sqrt_quarter: "sqrt (1 / 4) = 1 / 2"
  by (simp add: real_sqrt_divide)

lemma ramp_point_y:
  assumes "isRampCue cue" and "i < nat (sampleCountOf cue z)"
  shows "pt_y (points (generateWaveformData rnd cue w h z) ! i) =
     (let t = real i / (real_of_int (sampleCountOf cue z) - 1);
          currentIntensity = currentIntensityAt cue t;
          currentSharpness = currentSharpnessAt cue t;
          amplitude = currentIntensity * (h * 0.45);
          microVariation = sin (t * (25 + currentSharpness * 15) * 2 * pi) * 0.02 * currentIntensity
      in h / 2 - (rampValueAt cue t * amplitude + microVariation * amplitude))"
proof -
  from assms(1) have "cue_type cue = ramp_up \<or> cue_type cue = ramp_down"
    by (simp add: isRampCue_def)
  then show ?thesis
    unfolding generateWaveformData_nth [OF assms(2)]
    using assms(1)
    by (auto simp add: Let_def rampPoint_def rampProgress_def)
qed

lemma cue_r_facts:
  "cue_type cue_r = ramp_down" "isRampCue cue_r" "sampleCountOf cue_r 1 = 41"
  "currentSharpnessAt cue_r t = 1" "currentIntensityAt cue_r t = 1"
  by (simp_all add: cue_r_def isRampCue_def sampleCountOf_def currentSharpnessAt_def
        currentIntensityAt_def)

lemma curveShaping_sharp:
  "curveShaping 1 (1 / 4) = 1 / 2" "curveShaping 1 (1 - 1 / 4) = sqrt (3 / 4)"
  by (simp_all add: curveShaping_def Math_pow_def powr_half_sqrt sqrt_quarter)

text \<open>
  Claim C7 as stated fails. For a \<open>ramp_down\<close> cue of constant sharpness 1, the sample at
  progress \<open>1/4\<close> has the base curve value \<open>1 - sqrt (1/4) = 1/2\<close>, while curve shaping at
  \<open>1 - 1/4\<close> gives \<open>sqrt (3/4)\<close>; the synthesized \<open>y\<close> differs accordingly.
\<close>

theorem ramp_down_not_progress_inversion:
  "cue_type cue_r = ramp_down
   \<and> 10 < length (points (generateWaveformData (\<lambda>i. 0) cue_r 100 32 1))
   \<and> rampProgress (sampleCountOf cue_r 1) 10 = 1 / 4
   \<and> currentSharpnessAt cue_r (1 / 4) = 1
   \<and> rampValueAt cue_r (1 / 4) = 1 / 2
   \<and> curveShaping (currentSharpnessAt cue_r (1 / 4)) (1 - 1 / 4) = sqrt (3 / 4)
   \<and> rampValueAt cue_r (1 / 4) \<noteq> curveShaping (currentSharpnessAt cue_r (1 / 4)) (1 - 1 / 4)
   \<and> pt_y (points (generateWaveformData (\<lambda>i. 0) cue_r 100 32 1) ! 10)
       \<noteq> 32 / 2 - (curveShaping (currentSharpnessAt cue_r (1 / 4)) (1 - 1 / 4) * (1 * (32 * 0.45))
                    + sin ((1 / 4) * (25 + 1 * 15) * 2 * pi) * 0.02 * 1 * (1 * (32 * 0.45)))"
proof -
  note f = cue_r_facts
  have l: "10 < length (points (generateWaveformData (\<lambda>i. 0) cue_r 100 32 1))"
    by (simp add: generateWaveformData_length f)
  have p: "rampProgress (sampleCountOf cue_r 1) 10 = 1 / 4"
    by (simp add: f rampProgress_def)
  have v: "rampValueAt cue_r (1 / 4) = 1 / 2"
    by (simp add: rampValueAt_def f curveShaping_sharp)
  have ne: "rampValueAt cue_r (1 / 4) \<noteq> curveShaping (currentSharpnessAt cue_r (1 / 4)) (1 - 1 / 4)"
    unfolding v f curveShaping_sharp using sqrt_three_quarters by simp
  have i: "10 < nat (sampleCountOf cue_r 1)" by (simp add: f)
  have y: "pt_y (points (generateWaveformData (\<lambda>i. 0) cue_r 100 32 1) ! 10)
             = 32 / 2 - (1 / 2 * (1 * (32 * 0.45))
                    + sin ((1 / 4) * (25 + 1 * 15) * 2 * pi) * 0.02 * 1 * (1 * (32 * 0.45)))"
    unfolding ramp_point_y [OF f(2) i] by (simp add: Let_def f v)
  have yne: "pt_y (points (generateWaveformData (\<lambda>i. 0) cue_r 100 32 1) ! 10)
       \<noteq> 32 / 2 - (curveShaping (currentSharpnessAt cue_r (1 / 4)) (1 - 1 / 4) * (1 * (32 * 0.45))
                    + sin ((1 / 4) * (25 + 1 * 15) * 2 * pi) * 0.02 * 1 * (1 * (32 * 0.45)))"
    unfolding y f curveShaping_sharp using sqrt_three_quarters by simp
  from f(1) l p f(4) [of "1 / 4"] v curveShaping_sharp(2) ne yne show ?thesis
    by (simp only: f(4) simp_thms)
qed

text \<open>
  Claim C7, amended. For every \<open>ramp_down\<close> cue, synthesis inverts the shaped curve value
  (\<open>v \<mapsto> 1 - v\<close>) after curve shaping: at sample progress \<open>t\<close> the base curve value is one
  minus the curve-shaping function at \<open>t\<close>, with intensity and sharpness interpolated at \<open>t\<close>,
  and this is the value that enters the sample's \<open>y\<close>.
\<close>

theorem ramp_down_inverts_curve:
  fixes rnd :: "nat \<Rightarrow> real" and cue :: HapticCue and width height zoom :: real and i :: nat
  defines "pts \<equiv> points (generateWaveformData rnd cue width height zoom)"
  defines "t \<equiv> real i / (real_of_int (sampleCountOf cue zoom) - 1)"
  defines "currentIntensity \<equiv>
     intensity_start (props cue) + (intensity_end (props cue) - intensity_start (props cue)) * t"
  defines "currentSharpness \<equiv>
     sharpness_start (props cue) + (sharpness_end (props cue) - sharpness_start (props cue)) * t"
  defines "amplitude \<equiv> currentIntensity * (height * 0.45)"
  defines "microVariation \<equiv> sin (t * (25 + currentSharpness * 15) * 2 * pi) * 0.02 * currentIntensity"
  assumes "cue_type cue = ramp_down" and "i < length pts"
  shows "rampValueAt cue t = 1 - curveShaping currentSharpness t
       \<and> pt_y (pts ! i)
           = height / 2 - ((1 - curveShaping currentSharpness t) * amplitude
                           + microVariation * amplitude)"
proof -
  from assms(8) have i: "i < nat (sampleCountOf cue zoom)"
    unfolding pts_def generateWaveformData_length .
  have r: "isRampCue cue" using assms(7) by (simp add: isRampCue_def)
  have v: "rampValueAt cue t = 1 - curveShaping currentSharpness t"
    using assms(7) by (simp add: rampValueAt_def currentSharpness_def currentSharpnessAt_def)
  have y: "pt_y (pts ! i)
           = height / 2 - ((1 - curveShaping currentSharpness t) * amplitude
                           + microVariation * amplitude)"
    unfolding pts_def ramp_point_y [OF r i]
    by (simp add: Let_def v [unfolded t_def] t_def
          currentIntensityAt_def currentSharpnessAt_def currentIntensity_def
          currentSharpness_def amplitude_def microVariation_def)
  from v y show ?thesis by simp
qed

theorem ramp_down_inverts_curve_witness:
  "cue_type cue_r = ramp_down
   \<and> 10 < length (points (generateWaveformData (\<lambda>i. 0) cue_r 100 32 1))
   \<and> pt_y (points (generateWaveformData (\<lambda>i. 0) cue_r 100 32 1) ! 10)
       = 16 - ((1 - 1 / 2) * (32 * 0.45) + sin ((1 / 4) * 40 * 2 * pi) * 0.02 * (32 * 0.45))"
proof -
  have t: "cue_type cue_r = ramp_down" by (simp add: cue_r_def)
  have n: "sampleCountOf cue_r 1 = 41" by (simp add: sampleCountOf_def cue_r_def)
  have l: "10 < length (points (generateWaveformData (\<lambda>i. 0) cue_r 100 32 1))"
    by (simp add: generateWaveformData_length n)
  have c1: "curveShaping 1 (1 / 4) = 1 / 2"
    by (simp add: curveShaping_def Math_pow_def powr_half_sqrt sqrt_quarter)
  have pr: "props cue_r = RampCueProperties 1 1 1 1" by (simp add: cue_r_def)
  from ramp_down_inverts_curve [OF t l, THEN conjunct2]
  have "pt_y (points (generateWaveformData (\<lambda>i. 0) cue_r 100 32 1) ! 10)
       = 16 - ((1 - 1 / 2) * (32 * 0.45) + sin ((1 / 4) * 40 * 2 * pi) * 0.02 * (32 * 0.45))"
    by (simp add: n pr c1)
  with t l show ?thesis by simp
qed

end
